theory Spec2Isabelle
  imports Main "HOL-Library.Code_Target_Numeral"
begin

section \<open>Values of the parsed route document\<close>

text \<open>
  \<^verbatim>\<open>response.json()\<close> hands the program a tree of Python values: \<^verbatim>\<open>None\<close>,
  booleans, unbounded integers, floats, strings, lists and dictionaries whose keys are
  strings. A float is kept as sign, mantissa and binary exponent (the value is
  \<open>\<plusminus> m * 2 ^ e\<close>), or as one of the two infinities or not-a-number, which
  Python's JSON reader accepts. A dictionary is kept as the list of its items in
  insertion order; a Python dictionary holds each key once. A string is a list of
  characters.
\<close>

datatype pyfloat =
    Fin bool nat int
  | Inf bool
  | NaN

datatype json =
    JNull
  | JBool bool
  | JInt int
  | JFloat pyfloat
  | JStr string
  | JArr "json list"
  | JObj "(string \<times> json) list"

text \<open>The exceptions that the program's own code and the operations it uses can raise.
  \<open>SystemExitWith n\<close> is what \<^verbatim>\<open>sys.exit(n)\<close> raises.\<close>

datatype exn =
    KeyError
  | IndexError
  | TypeError
  | OverflowError
  | ValueError
  | HTTPError
  | RequestException
  | OSError
  | OtherException
  | SystemExitWith nat

definition bind :: "exn + 'a \<Rightarrow> ('a \<Rightarrow> exn + 'b) \<Rightarrow> exn + 'b" where
  "bind m f = (case m of Inl e \<Rightarrow> Inl e | Inr x \<Rightarrow> f x)"

subsection \<open>Python's subscription, membership, iteration and truth value\<close>

text \<open>An object usable as a sequence index: an \<^verbatim>\<open>int\<close>, of which \<^verbatim>\<open>bool\<close> is a
  subclass (\<^verbatim>\<open>True\<close> is 1, \<^verbatim>\<open>False\<close> is 0).\<close>

fun as_index :: "json \<Rightarrow> int option" where
  "as_index (JInt i) = Some i"
| "as_index (JBool b) = Some (if b then 1 else 0)"
| "as_index _ = None"

text \<open>\<^verbatim>\<open>seq[i]\<close> on a list or a string: an index below zero counts from the end, and an
  index outside \<open>-len \<le> i < len\<close> raises \<^verbatim>\<open>IndexError\<close>.\<close>

definition seq_item :: "'a list \<Rightarrow> int \<Rightarrow> exn + 'a" where
  "seq_item xs i =
     (if 0 \<le> i \<and> i < int (length xs) then Inr (xs ! nat i)
      else if - int (length xs) \<le> i \<and> i < 0 then Inr (xs ! nat (i + int (length xs)))
      else Inl IndexError)"

fun hashable :: "json \<Rightarrow> bool" where
  "hashable (JArr _) = False"
| "hashable (JObj _) = False"
| "hashable _ = True"

text \<open>\<^verbatim>\<open>obj[key]\<close>. A dictionary of the document has string keys only, so a hashable key
  that is not a string is never found; a list or a dictionary as key is unhashable.\<close>

fun subscript :: "json \<Rightarrow> json \<Rightarrow> exn + json" where
  "subscript (JArr xs) k =
     (case as_index k of None \<Rightarrow> Inl TypeError | Some i \<Rightarrow> seq_item xs i)"
| "subscript (JStr s) k =
     (case as_index k of None \<Rightarrow> Inl TypeError
      | Some i \<Rightarrow> bind (seq_item s i) (\<lambda>c. Inr (JStr [c])))"
| "subscript (JObj kvs) k =
     (if \<not> hashable k then Inl TypeError
      else case k of
             JStr s \<Rightarrow> (case map_of kvs s of None \<Rightarrow> Inl KeyError | Some v \<Rightarrow> Inr v)
           | _ \<Rightarrow> Inl KeyError)"
| "subscript _ k = Inl TypeError"

fun starts_with :: "string \<Rightarrow> string \<Rightarrow> bool" where
  "starts_with s [] = True"
| "starts_with [] (p # ps) = False"
| "starts_with (c # cs) (p # ps) = (c = p \<and> starts_with cs ps)"

fun has_substring :: "string \<Rightarrow> string \<Rightarrow> bool" where
  "has_substring [] p = (p = [])"
| "has_substring (c # cs) p = (starts_with (c # cs) p \<or> has_substring cs p)"

text \<open>\<^verbatim>\<open>field in obj\<close> for a string \<open>field\<close>: key membership in a dictionary, element
  membership in a list, substring test in a string, \<^verbatim>\<open>TypeError\<close> otherwise.\<close>

fun py_in :: "string \<Rightarrow> json \<Rightarrow> exn + bool" where
  "py_in f (JObj kvs) = Inr (map_of kvs f \<noteq> None)"
| "py_in f (JArr xs) = Inr (JStr f \<in> set xs)"
| "py_in f (JStr s) = Inr (has_substring s f)"
| "py_in f _ = Inl TypeError"

text \<open>The items a \<^verbatim>\<open>for\<close> loop draws: the elements of a list, the characters of a
  string, the keys of a dictionary; anything else is not iterable.\<close>

fun py_iter :: "json \<Rightarrow> exn + json list" where
  "py_iter (JArr xs) = Inr xs"
| "py_iter (JStr s) = Inr (map (\<lambda>c. JStr [c]) s)"
| "py_iter (JObj kvs) = Inr (map (\<lambda>kv. JStr (fst kv)) kvs)"
| "py_iter _ = Inl TypeError"

fun float_truthy :: "pyfloat \<Rightarrow> bool" where
  "float_truthy (Fin s m e) = (m \<noteq> 0)"
| "float_truthy _ = True"

fun truthy :: "json \<Rightarrow> bool" where
  "truthy JNull = False"
| "truthy (JBool b) = b"
| "truthy (JInt i) = (i \<noteq> 0)"
| "truthy (JFloat x) = float_truthy x"
| "truthy (JStr s) = (s \<noteq> [])"
| "truthy (JArr xs) = (xs \<noteq> [])"
| "truthy (JObj kvs) = (kvs \<noteq> [])"

subsection \<open>Dictionaries built by the program\<close>

type_synonym metadata = "(string \<times> json) list"

text \<open>\<^verbatim>\<open>d[k] = v\<close>: replace the value of an existing key in place, append a new key.\<close>

fun dict_set :: "(string \<times> 'v) list \<Rightarrow> string \<Rightarrow> 'v \<Rightarrow> (string \<times> 'v) list" where
  "dict_set [] k v = [(k, v)]"
| "dict_set ((k', v') # d) k v = (if k' = k then (k, v) # d else (k', v') # dict_set d k v)"

text \<open>\<^verbatim>\<open>d.get(k)\<close> is \<open>map_of d k\<close>, with \<^verbatim>\<open>None\<close> for a missing key.\<close>

definition dict_get :: "metadata \<Rightarrow> string \<Rightarrow> json" where
  "dict_get d k = (case map_of d k of None \<Rightarrow> JNull | Some v \<Rightarrow> v)"

section \<open>The decoder\<close>

text \<open>\<^verbatim>\<open>def deref(data, index): return data[index]\<close>\<close>

definition deref :: "json \<Rightarrow> json \<Rightarrow> exn + json" where
  "deref data index = subscript data index"

definition fields_list :: "string list" where
  "fields_list = [''id'', ''title'', ''distance'', ''elevation'',
                  ''geo_city'', ''geo_county'', ''geo_state'', ''geo_country'']"

text \<open>\<^verbatim>\<open>isinstance(idx, int) and idx > 0\<close>; \<^verbatim>\<open>True\<close> is an \<^verbatim>\<open>int\<close> greater than zero.\<close>

fun is_pointer :: "json \<Rightarrow> bool" where
  "is_pointer (JInt i) = (0 < i)"
| "is_pointer (JBool b) = b"
| "is_pointer _ = False"

text \<open>The body of the loop over the metadata fields (source lines 53 to 56).\<close>

definition meta_field :: "json \<Rightarrow> json \<Rightarrow> metadata \<Rightarrow> string \<Rightarrow> exn + metadata" where
  "meta_field route_data route_meta_struct metadata field =
     bind (py_in field route_meta_struct) (\<lambda>present.
       if present then
         bind (subscript route_meta_struct (JStr field)) (\<lambda>idx.
           if is_pointer idx then
             bind (deref route_data idx) (\<lambda>v. Inr (dict_set metadata field v))
           else Inr metadata)
       else Inr metadata)"

fun meta_loop :: "json \<Rightarrow> json \<Rightarrow> metadata \<Rightarrow> string list \<Rightarrow> exn + metadata" where
  "meta_loop route_data route_meta_struct metadata [] = Inr metadata"
| "meta_loop route_data route_meta_struct metadata (field # rest) =
     bind (meta_field route_data route_meta_struct metadata field) (\<lambda>metadata'.
       meta_loop route_data route_meta_struct metadata' rest)"

record point =
  lat :: json
  lng :: json
  ele :: json

text \<open>The body of the loop over the point indices (source lines 65 to 71).\<close>

definition point_of :: "json \<Rightarrow> json \<Rightarrow> exn + point" where
  "point_of route_data point_idx =
     bind (deref route_data point_idx) (\<lambda>point_refs.
     bind (subscript point_refs (JInt 0)) (\<lambda>r0.
     bind (deref route_data r0) (\<lambda>lat_v.
     bind (subscript point_refs (JInt 1)) (\<lambda>r1.
     bind (deref route_data r1) (\<lambda>lng_v.
     bind (subscript point_refs (JInt 2)) (\<lambda>r2.
     bind (deref route_data r2) (\<lambda>ele_v.
     Inr \<lparr>lat = lat_v, lng = lng_v, ele = ele_v\<rparr>)))))))"

fun points_loop :: "json \<Rightarrow> point list \<Rightarrow> json list \<Rightarrow> exn + point list" where
  "points_loop route_data points [] = Inr points"
| "points_loop route_data points (point_idx # rest) =
     bind (point_of route_data point_idx) (\<lambda>p.
       points_loop route_data (points @ [p]) rest)"


subsection \<open>Text of a value\<close>

definition digit_char :: "nat \<Rightarrow> char" where
  "digit_char d = ''0123456789'' ! d"

fun show_nat :: "nat \<Rightarrow> string" where
  "show_nat n = (if n < 10 then [digit_char n] else show_nat (n div 10) @ [digit_char (n mod 10)])"

declare show_nat.simps [simp del]

definition show_int :: "int \<Rightarrow> string" where
  "show_int i = (if i < 0 then ''-'' @ show_nat (nat (- i)) else show_nat (nat i))"

text \<open>
  What the interpreter supplies and the program does not define: \<open>repr_of\<close> is the text
  \<^verbatim>\<open>str\<close> gives for a float, a list or a dictionary, \<open>message_of\<close> the text of an
  exception.
\<close>

record runtime =
  repr_of :: "json \<Rightarrow> string"
  message_of :: "exn \<Rightarrow> string"

text \<open>\<^verbatim>\<open>f"{v}"\<close>, that is \<^verbatim>\<open>str(v)\<close>.\<close>

fun py_str :: "runtime \<Rightarrow> json \<Rightarrow> string" where
  "py_str rt JNull = ''None''"
| "py_str rt (JBool b) = (if b then ''True'' else ''False'')"
| "py_str rt (JInt i) = show_int i"
| "py_str rt (JStr s) = s"
| "py_str rt v = repr_of rt v"

text \<open>\<^verbatim>\<open>metadata.get("title") or f"Route {metadata.get('id', 'Unknown')}"\<close> (source line 58).\<close>

definition derive_name :: "runtime \<Rightarrow> metadata \<Rightarrow> json" where
  "derive_name rt metadata =
     (if truthy (dict_get metadata ''title'') then dict_get metadata ''title''
      else JStr (''Route '' @
             py_str rt (case map_of metadata ''id'' of None \<Rightarrow> JStr ''Unknown'' | Some v \<Rightarrow> v)))"

text \<open>\<^verbatim>\<open>extract_route_info\<close> (source lines 32 to 73).\<close>

definition extract_route_info :: "runtime \<Rightarrow> json \<Rightarrow> exn + (point list \<times> metadata \<times> json)" where
  "extract_route_info rt data =
     bind (subscript data (JStr ''nodes'')) (\<lambda>nodes.
     bind (subscript nodes (JInt 2)) (\<lambda>node.
     bind (subscript node (JStr ''data'')) (\<lambda>route_data.
     bind (subscript route_data (JInt 0)) (\<lambda>route_info.
     bind (subscript route_info (JStr ''latLngData'')) (\<lambda>lat_lng_idx.
     bind (subscript route_info (JStr ''route'')) (\<lambda>route_meta_idx.
     bind (deref route_data route_meta_idx) (\<lambda>route_meta_struct.
     bind (meta_loop route_data route_meta_struct [] fields_list) (\<lambda>metadata.
     bind (deref route_data lat_lng_idx) (\<lambda>point_indices.
     bind (py_iter point_indices) (\<lambda>idxs.
     bind (points_loop route_data [] idxs) (\<lambda>points.
     Inr (points, metadata, derive_name rt metadata))))))))))))"

text \<open>The three exception classes that \<^verbatim>\<open>main\<close> reports as
  \<^verbatim>\<open>Error parsing route data\<close> (source line 180): the structure errors.\<close>

fun is_structure_error :: "exn \<Rightarrow> bool" where
  "is_structure_error KeyError = True"
| "is_structure_error IndexError = True"
| "is_structure_error TypeError = True"
| "is_structure_error _ = False"

text \<open>Where the decoder finds its three structural values: the store
  \<^verbatim>\<open>data["nodes"][2]["data"]\<close>, the metadata record and the point-index list. They
  name the intermediate values of \<open>extract_route_info\<close> in the statements below.\<close>

definition route_data_of :: "json \<Rightarrow> exn + json" where
  "route_data_of data =
     bind (subscript data (JStr ''nodes'')) (\<lambda>nodes.
     bind (subscript nodes (JInt 2)) (\<lambda>node.
     subscript node (JStr ''data'')))"

definition route_meta_struct_of :: "json \<Rightarrow> exn + json" where
  "route_meta_struct_of data =
     bind (route_data_of data) (\<lambda>route_data.
     bind (subscript route_data (JInt 0)) (\<lambda>route_info.
     bind (subscript route_info (JStr ''route'')) (\<lambda>route_meta_idx.
     deref route_data route_meta_idx)))"

definition point_indices_of :: "json \<Rightarrow> exn + json" where
  "point_indices_of data =
     bind (route_data_of data) (\<lambda>route_data.
     bind (subscript route_data (JInt 0)) (\<lambda>route_info.
     bind (subscript route_info (JStr ''latLngData'')) (\<lambda>lat_lng_idx.
     deref route_data lat_lng_idx)))"

section \<open>Numbers in the description\<close>

text \<open>
  Python's \<^verbatim>\<open>/\<close> on an \<^verbatim>\<open>int\<close> and on a float gives the binary64 number nearest to
  the exact quotient, ties to the even mantissa. \<open>div_round m e d\<close> computes it for
  \<open>m * 2 ^ e / d\<close> in integer arithmetic: the mantissa has at most 53 bits, the exponent
  is at least \<open>-1074\<close> (subnormal numbers), and a result beyond the largest finite
  number is \<open>None\<close>.
\<close>

definition round_half_even :: "nat \<Rightarrow> nat \<Rightarrow> nat" where
  "round_half_even num den =
     (let q = num div den; r = num mod den in
      if 2 * r < den then q
      else if den < 2 * r then q + 1
      else if even q then q else q + 1)"

text \<open>\<open>m * 2 ^ s / d\<close> as a fraction of two naturals.\<close>

definition scaled :: "nat \<Rightarrow> int \<Rightarrow> nat \<Rightarrow> nat \<times> nat" where
  "scaled m s d = (if 0 \<le> s then (m * 2 ^ nat s, d) else (m, d * 2 ^ nat (- s)))"

fun bit_length :: "nat \<Rightarrow> nat" where
  "bit_length n = (if n = 0 then 0 else Suc (bit_length (n div 2)))"

declare bit_length.simps [simp del]

definition div_round :: "nat \<Rightarrow> int \<Rightarrow> nat \<Rightarrow> (nat \<times> int) option" where
  "div_round m e d =
     (if m = 0 then Some (0, 0)
      else
        let k = int (bit_length m) - int (bit_length d);
            f = (if snd (scaled m (- k) d) \<le> fst (scaled m (- k) d) then k else k - 1);
            t = max (f + e - 52) (- 1074);
            q = round_half_even (fst (scaled m (e - t) d)) (snd (scaled m (e - t) d))
        in if 971 < t \<or> (t = 971 \<and> 2 ^ 53 \<le> q) then None else Some (q, t))"

text \<open>\<^verbatim>\<open>v / d\<close> for a positive integer constant \<open>d\<close>: an \<^verbatim>\<open>int\<close> (or \<^verbatim>\<open>bool\<close>) too
  large for a float raises \<^verbatim>\<open>OverflowError\<close>, a value that is not a number raises
  \<^verbatim>\<open>TypeError\<close>.\<close>

fun true_div :: "json \<Rightarrow> nat \<Rightarrow> exn + pyfloat" where
  "true_div (JInt n) d =
     (case div_round (nat \<bar>n\<bar>) 0 d of
        None \<Rightarrow> Inl OverflowError
      | Some (q, t) \<Rightarrow> Inr (Fin (n < 0) q t))"
| "true_div (JBool b) d =
     (case div_round (if b then 1 else 0) 0 d of
        None \<Rightarrow> Inl OverflowError
      | Some (q, t) \<Rightarrow> Inr (Fin False q t))"
| "true_div (JFloat (Fin s m e)) d =
     (case div_round m e d of
        None \<Rightarrow> Inr (Inf s)
      | Some (q, t) \<Rightarrow> Inr (Fin s q t))"
| "true_div (JFloat (Inf s)) d = Inr (Inf s)"
| "true_div (JFloat NaN) d = Inr NaN"
| "true_div _ d = Inl TypeError"

definition pad_left :: "nat \<Rightarrow> string \<Rightarrow> string" where
  "pad_left n s = replicate (n - length s) (CHR ''0'') @ s"

text \<open>\<^verbatim>\<open>f"{x:.pf}"\<close>: the decimal with \<open>p\<close> digits after the point that is nearest to the
  exact value of the float, ties to even; the sign of the float is kept even when
  the digits are all zero.\<close>

fun format_fixed :: "nat \<Rightarrow> pyfloat \<Rightarrow> string" where
  "format_fixed p (Fin s m e) =
     (let c = round_half_even (fst (scaled (m * 10 ^ p) e 1)) (snd (scaled (m * 10 ^ p) e 1))
      in (if s then ''-'' else []) @ show_nat (c div 10 ^ p) @
         (if p = 0 then [] else ''.'' @ pad_left p (show_nat (c mod 10 ^ p))))"
| "format_fixed p (Inf s) = (if s then ''-inf'' else ''inf'')"
| "format_fixed p NaN = ''nan''"

text \<open>\<^verbatim>\<open>round(x)\<close> of a float: the nearest integer, ties to even.\<close>

fun py_round :: "pyfloat \<Rightarrow> exn + int" where
  "py_round (Fin s m e) =
     (let c = int (round_half_even (fst (scaled m e 1)) (snd (scaled m e 1)))
      in Inr (if s then - c else c))"
| "py_round (Inf s) = Inl OverflowError"
| "py_round NaN = Inl ValueError"

section \<open>The track builder\<close>

record gpx_track_point =
  latitude :: json
  longitude :: json
  elevation :: json

record gpx_track_segment =
  seg_points :: "gpx_track_point list"

record gpx_track =
  track_name :: json
  segments :: "gpx_track_segment list"

record gpx =
  creator :: string
  gpx_name :: json
  gpx_description :: string
  gpx_time :: nat
  tracks :: "gpx_track list"

text \<open>\<^verbatim>\<open>sep.join(items)\<close>: every item has to be a string.\<close>

fun join_strs :: "string \<Rightarrow> string list \<Rightarrow> string" where
  "join_strs sep [] = []"
| "join_strs sep [x] = x"
| "join_strs sep (x # y # ys) = x @ sep @ join_strs sep (y # ys)"

fun str_items :: "json list \<Rightarrow> exn + string list" where
  "str_items [] = Inr []"
| "str_items (JStr s # vs) = bind (str_items vs) (\<lambda>ss. Inr (s # ss))"
| "str_items (v # vs) = Inl TypeError"

definition py_join :: "string \<Rightarrow> json list \<Rightarrow> exn + string" where
  "py_join sep items = bind (str_items items) (\<lambda>ss. Inr (join_strs sep ss))"

text \<open>\<^verbatim>\<open>metadata[k]\<close>\<close>

definition dict_item :: "metadata \<Rightarrow> string \<Rightarrow> exn + json" where
  "dict_item d k = (case map_of d k of None \<Rightarrow> Inl KeyError | Some v \<Rightarrow> Inr v)"

text \<open>The three blocks that fill \<^verbatim>\<open>desc_parts\<close> (source lines 83 to 99).\<close>

definition add_location :: "metadata \<Rightarrow> string list \<Rightarrow> exn + string list" where
  "add_location metadata desc_parts =
     (if truthy (dict_get metadata ''geo_city'') then
        bind (py_join '', '' (filter truthy [dict_get metadata ''geo_city'',
                                              dict_get metadata ''geo_state'',
                                              dict_get metadata ''geo_country''])) (\<lambda>location.
          if location \<noteq> [] then Inr (desc_parts @ [''Location: '' @ location])
          else Inr desc_parts)
      else Inr desc_parts)"

definition add_distance :: "metadata \<Rightarrow> string list \<Rightarrow> exn + string list" where
  "add_distance metadata desc_parts =
     (if truthy (dict_get metadata ''distance'') then
        bind (dict_item metadata ''distance'') (\<lambda>distance.
        bind (true_div distance 100000) (\<lambda>dist_km.
          Inr (desc_parts @ [''Distance: '' @ format_fixed 2 dist_km @ '' km''])))
      else Inr desc_parts)"

definition add_elevation :: "metadata \<Rightarrow> string list \<Rightarrow> exn + string list" where
  "add_elevation metadata desc_parts =
     (if truthy (dict_get metadata ''elevation'') then
        bind (dict_item metadata ''elevation'') (\<lambda>elevation.
        bind (true_div elevation 100) (\<lambda>ele_m.
        bind (py_round ele_m) (\<lambda>r.
          Inr (desc_parts @ [''Elevation gain: '' @ show_int r @ '' m'']))))
      else Inr desc_parts)"

definition build_description :: "metadata \<Rightarrow> exn + string" where
  "build_description metadata =
     bind (add_location metadata []) (\<lambda>parts1.
     bind (add_distance metadata parts1) (\<lambda>parts2.
     bind (add_elevation metadata parts2) (\<lambda>desc_parts.
     Inr (join_strs ''; '' desc_parts))))"

text \<open>\<^verbatim>\<open>GPXTrackPoint(latitude=point["lat"], longitude=point["lng"],
  elevation=point["ele"])\<close>: the constructor of the gpxpy library keeps
  \<^verbatim>\<open>latitude or 0\<close> and \<^verbatim>\<open>longitude or 0\<close>, and the elevation as it is given. So a
  latitude or longitude that is false in Python's sense (\<^verbatim>\<open>None\<close>, \<^verbatim>\<open>False\<close>, a zero,
  an empty string, list or dictionary) becomes the integer 0.\<close>

definition track_point :: "point \<Rightarrow> gpx_track_point" where
  "track_point p =
     \<lparr>latitude = (if truthy (lat p) then lat p else JInt 0),
      longitude = (if truthy (lng p) then lng p else JInt 0),
      elevation = ele p\<rparr>"

text \<open>The loop that appends one track point per point (source lines 118 to 124).\<close>

fun add_points :: "gpx_track_segment \<Rightarrow> point list \<Rightarrow> gpx_track_segment" where
  "add_points segment [] = segment"
| "add_points segment (p # ps) =
     add_points (segment\<lparr>seg_points := seg_points segment @ [track_point p]\<rparr>) ps"

text \<open>\<^verbatim>\<open>build_gpx\<close> (source lines 76 to 126); \<open>now\<close> is the clock reading of
  \<^verbatim>\<open>datetime.now(timezone.utc)\<close>.\<close>

definition build_gpx :: "nat \<Rightarrow> point list \<Rightarrow> json \<Rightarrow> metadata \<Rightarrow> exn + gpx" where
  "build_gpx now points route_name metadata =
     bind (build_description metadata) (\<lambda>description.
       Inr \<lparr>creator = ''Biketerra GPX Exporter'',
            gpx_name = route_name,
            gpx_description = description,
            gpx_time = now,
            tracks = [\<lparr>track_name = route_name,
                       segments = [add_points \<lparr>seg_points = []\<rparr> points]\<rparr>]\<rparr>)"

section \<open>The command-line program\<close>

text \<open>
  What the program reaches outside itself: the HTTP request of \<^verbatim>\<open>requests.get\<close>, the
  serialisation \<^verbatim>\<open>gpx.to_xml()\<close> of the gpxpy library, the clock, and whether a path
  can be opened for writing. The response of a request carries its status code and
  what \<^verbatim>\<open>response.json()\<close> returns or raises.
\<close>

record response =
  status_code :: nat
  json_body :: "exn + json"

record env =
  runtime :: runtime
  http_get :: "string \<Rightarrow> exn + response"
  to_xml :: "gpx \<Rightarrow> exn + string"
  clock :: nat
  can_open :: "string \<Rightarrow> bool"

text \<open>The functions \<^verbatim>\<open>main\<close> calls, in the order it calls them; \<open>calls\<close> of the
  world below records each call when it is made.\<close>

datatype call = FetchRouteData | ExtractRouteInfo | BuildGpx | OpenForWriting string | ToXml | WriteFile

record world =
  files :: "string \<Rightarrow> string option"
  out :: "string list"
  err :: "string list"
  calls :: "call list"

definition print_out :: "string \<Rightarrow> world \<Rightarrow> world" where
  "print_out line w = w\<lparr>out := out w @ [line]\<rparr>"

definition print_err :: "string \<Rightarrow> world \<Rightarrow> world" where
  "print_err line w = w\<lparr>err := err w @ [line]\<rparr>"

definition called :: "call \<Rightarrow> world \<Rightarrow> world" where
  "called c w = w\<lparr>calls := calls w @ [c]\<rparr>"

text \<open>\<^verbatim>\<open>fetch_route_data\<close> (source lines 17 to 24); \<^verbatim>\<open>raise_for_status\<close> raises
  \<^verbatim>\<open>HTTPError\<close> for a status from 400 to 599.\<close>

definition fetch_route_data :: "env \<Rightarrow> string \<Rightarrow> exn + json" where
  "fetch_route_data env route_id =
     bind (http_get env (''https://biketerra.com/routes/'' @ route_id @ ''/__data.json''))
       (\<lambda>response.
          if 400 \<le> status_code response \<and> status_code response < 600 then Inl HTTPError
          else json_body response)"

text \<open>The two optional lines \<^verbatim>\<open>main\<close> prints last (source lines 168 to 171).\<close>

definition print_distance :: "metadata \<Rightarrow> world \<Rightarrow> (exn + unit) \<times> world" where
  "print_distance metadata w =
     (if truthy (dict_get metadata ''distance'') then
        (case bind (dict_item metadata ''distance'') (\<lambda>d. true_div d 100000) of
           Inl e \<Rightarrow> (Inl e, w)
         | Inr x \<Rightarrow> (Inr (), print_out (''Distance: '' @ format_fixed 2 x @ '' km'') w))
      else (Inr (), w))"

definition print_elevation :: "metadata \<Rightarrow> world \<Rightarrow> (exn + unit) \<times> world" where
  "print_elevation metadata w =
     (if truthy (dict_get metadata ''elevation'') then
        (case bind (dict_item metadata ''elevation'') (\<lambda>d. true_div d 100) of
           Inl e \<Rightarrow> (Inl e, w)
         | Inr x \<Rightarrow> (Inr (), print_out (''Elevation: '' @ format_fixed 0 x @ '' m'') w))
      else (Inr (), w))"

text \<open>The body of the \<^verbatim>\<open>try\<close> statement of \<^verbatim>\<open>main\<close> (source lines 153 to 171).
  \<^verbatim>\<open>open(output_file, "w")\<close> creates or empties the file before \<^verbatim>\<open>gpx.to_xml()\<close> is
  evaluated.\<close>

definition main_try :: "env \<Rightarrow> string \<Rightarrow> string \<Rightarrow> world \<Rightarrow> (exn + unit) \<times> world" where
  "main_try env route_id output_file w =
     (let w1 = called FetchRouteData (print_out (''Fetching route '' @ route_id @ ''...'') w) in
      case fetch_route_data env route_id of
        Inl e \<Rightarrow> (Inl e, w1)
      | Inr data \<Rightarrow>
          let w2 = called ExtractRouteInfo w1 in
          case extract_route_info (runtime env) data of
            Inl e \<Rightarrow> (Inl e, w2)
          | Inr (points, metadata, route_name) \<Rightarrow>
              if points = [] then
                (Inl (SystemExitWith 1),
                 print_err ''Error: No track points found in route data'' w2)
              else
                let w3 = called BuildGpx w2 in
                case build_gpx (clock env) points route_name metadata of
                  Inl e \<Rightarrow> (Inl e, w3)
                | Inr gpx \<Rightarrow>
                    let w4 = called (OpenForWriting output_file) w3 in
                    if \<not> can_open env output_file then (Inl OSError, w4)
                    else
                      let w5 = called ToXml (w4\<lparr>files := (files w4)(output_file \<mapsto> [])\<rparr>) in
                      case to_xml env gpx of
                        Inl e \<Rightarrow> (Inl e, w5)
                      | Inr xml \<Rightarrow>
                          let w6 = called WriteFile (w5\<lparr>files := (files w5)(output_file \<mapsto> xml)\<rparr>);
                              w7 = print_out (''Wrote '' @ output_file @ '' ('' @
                                     show_nat (length points) @ '' points)'') w6;
                              w8 = print_out (''Route: '' @ py_str (runtime env) route_name) w7
                          in case print_distance metadata w8 of
                               (Inl e, w9) \<Rightarrow> (Inl e, w9)
                             | (Inr u, w9) \<Rightarrow> print_elevation metadata w9)"

text \<open>\<^verbatim>\<open>main\<close> after the arguments are parsed: \<open>output\<close> is the value of
  \<^verbatim>\<open>--out\<close>, if given. The three \<^verbatim>\<open>except\<close> clauses print one line and call
  \<^verbatim>\<open>sys.exit(1)\<close>; any other exception leaves \<^verbatim>\<open>main\<close> as it is.\<close>

definition main :: "env \<Rightarrow> string \<Rightarrow> string option \<Rightarrow> world \<Rightarrow> (exn + unit) \<times> world" where
  "main env route_id output w =
     (let output_file = (case output of
                           None \<Rightarrow> route_id @ ''.gpx''
                         | Some p \<Rightarrow> if p \<noteq> [] then p else route_id @ ''.gpx'')
      in case main_try env route_id output_file w of
           (Inr u, w') \<Rightarrow> (Inr u, w')
         | (Inl e, w') \<Rightarrow>
             if e = HTTPError then
               (Inl (SystemExitWith 1),
                print_err (''Error fetching route: '' @ message_of (runtime env) e) w')
             else if e = RequestException then
               (Inl (SystemExitWith 1),
                print_err (''Network error: '' @ message_of (runtime env) e) w')
             else if e = KeyError \<or> e = IndexError \<or> e = TypeError then
               (Inl (SystemExitWith 1),
                print_err (''Error parsing route data: '' @ message_of (runtime env) e) w')
             else (Inl e, w'))"

text \<open>The exit status of the process: 0 when \<^verbatim>\<open>main\<close> returns, the argument of
  \<^verbatim>\<open>sys.exit\<close>, and 1 when an exception is not caught.\<close>

fun exit_status :: "exn + unit \<Rightarrow> nat" where
  "exit_status (Inr u) = 0"
| "exit_status (Inl (SystemExitWith n)) = n"
| "exit_status (Inl e) = 1"

section \<open>The decoder on a heap\<close>

text \<open>
  The functions above compute with the document as a tree of values. Python's lists
  and dictionaries are objects with an identity that are updated in place: the decoder
  fills the dictionary \<^verbatim>\<open>metadata\<close> and the list \<^verbatim>\<open>points\<close>, and the values it puts
  into them are the very objects of the store. The heap below makes this explicit. A
  value is an immutable literal or a reference to an object; an object is a list or a
  dictionary; the heap is the list of all objects, and the address of an object is its
  position. \<open>alloc\<close> puts a new object behind the existing ones. The literal list
  \<^verbatim>\<open>fields\<close> is only read and stays the constant \<open>fields_list\<close>; the tuple that is
  returned is immutable and stays a triple.
\<close>

type_synonym addr = nat

datatype val = VNone | VBool bool | VInt int | VFloat pyfloat | VStr string | VRef addr

datatype obj = OList "val list" | ODict "(string \<times> val) list"

type_synonym heap = "obj list"

definition alloc :: "obj \<Rightarrow> heap \<Rightarrow> addr \<times> heap" where
  "alloc ob h = (length h, h @ [ob])"

text \<open>\<open>represents h v j\<close>: the value \<open>v\<close> in the heap \<open>h\<close> is the tree \<open>j\<close>.\<close>

fun represents :: "heap \<Rightarrow> val \<Rightarrow> json \<Rightarrow> bool" where
  "represents h v JNull = (v = VNone)"
| "represents h v (JBool b) = (v = VBool b)"
| "represents h v (JInt i) = (v = VInt i)"
| "represents h v (JFloat x) = (v = VFloat x)"
| "represents h v (JStr s) = (v = VStr s)"
| "represents h v (JArr js) =
     (case v of
        VRef a \<Rightarrow> a < length h \<and>
          (case h ! a of OList vs \<Rightarrow> list_all2 (represents h) vs js | ODict kvs \<Rightarrow> False)
      | _ \<Rightarrow> False)"
| "represents h v (JObj kjs) =
     (case v of
        VRef a \<Rightarrow> a < length h \<and>
          (case h ! a of
             ODict kvs \<Rightarrow>
               list_all2 (\<lambda>kv kj. fst kv = fst kj \<and> represents h (snd kv) (snd kj)) kvs kjs
           | OList vs \<Rightarrow> False)
      | _ \<Rightarrow> False)"

text \<open>Subscription, membership, iteration and truth value, reading the heap. A
  reference to no object does not occur in a Python heap; the functions answer it
  with \<open>OtherException\<close>.\<close>

fun as_index_h :: "val \<Rightarrow> int option" where
  "as_index_h (VInt i) = Some i"
| "as_index_h (VBool b) = Some (if b then 1 else 0)"
| "as_index_h _ = None"

fun subscript_h :: "heap \<Rightarrow> val \<Rightarrow> val \<Rightarrow> exn + val" where
  "subscript_h h (VRef a) k =
     (if length h \<le> a then Inl OtherException
      else case h ! a of
             OList vs \<Rightarrow>
               (case as_index_h k of None \<Rightarrow> Inl TypeError | Some i \<Rightarrow> seq_item vs i)
           | ODict kvs \<Rightarrow>
               (case k of
                  VRef b \<Rightarrow> Inl TypeError
                | VStr s \<Rightarrow> (case map_of kvs s of None \<Rightarrow> Inl KeyError | Some v \<Rightarrow> Inr v)
                | _ \<Rightarrow> Inl KeyError))"
| "subscript_h h (VStr s) k =
     (case as_index_h k of None \<Rightarrow> Inl TypeError
      | Some i \<Rightarrow> bind (seq_item s i) (\<lambda>c. Inr (VStr [c])))"
| "subscript_h h _ k = Inl TypeError"

definition deref_h :: "heap \<Rightarrow> val \<Rightarrow> val \<Rightarrow> exn + val" where
  "deref_h h data index = subscript_h h data index"

fun py_in_h :: "heap \<Rightarrow> string \<Rightarrow> val \<Rightarrow> exn + bool" where
  "py_in_h h f (VRef a) =
     (if length h \<le> a then Inl OtherException
      else case h ! a of
             OList vs \<Rightarrow> Inr (VStr f \<in> set vs)
           | ODict kvs \<Rightarrow> Inr (map_of kvs f \<noteq> None))"
| "py_in_h h f (VStr s) = Inr (has_substring s f)"
| "py_in_h h f _ = Inl TypeError"

fun py_iter_h :: "heap \<Rightarrow> val \<Rightarrow> exn + val list" where
  "py_iter_h h (VRef a) =
     (if length h \<le> a then Inl OtherException
      else case h ! a of
             OList vs \<Rightarrow> Inr vs
           | ODict kvs \<Rightarrow> Inr (map (\<lambda>kv. VStr (fst kv)) kvs))"
| "py_iter_h h (VStr s) = Inr (map (\<lambda>c. VStr [c]) s)"
| "py_iter_h h _ = Inl TypeError"

fun truthy_h :: "heap \<Rightarrow> val \<Rightarrow> bool" where
  "truthy_h h VNone = False"
| "truthy_h h (VBool b) = b"
| "truthy_h h (VInt i) = (i \<noteq> 0)"
| "truthy_h h (VFloat x) = float_truthy x"
| "truthy_h h (VStr s) = (s \<noteq> [])"
| "truthy_h h (VRef a) =
     (a < length h \<and> (case h ! a of OList vs \<Rightarrow> vs \<noteq> [] | ODict kvs \<Rightarrow> kvs \<noteq> []))"

fun is_pointer_h :: "val \<Rightarrow> bool" where
  "is_pointer_h (VInt i) = (0 < i)"
| "is_pointer_h (VBool b) = b"
| "is_pointer_h _ = False"

text \<open>The two updates in place: \<^verbatim>\<open>d[k] = v\<close> on the dictionary at \<open>a\<close> and
  \<^verbatim>\<open>l.append(v)\<close> on the list at \<open>a\<close>; and \<^verbatim>\<open>d.get(k)\<close>.\<close>

definition setitem_h :: "addr \<Rightarrow> string \<Rightarrow> val \<Rightarrow> heap \<Rightarrow> heap" where
  "setitem_h a k v h =
     (case h ! a of ODict kvs \<Rightarrow> h[a := ODict (dict_set kvs k v)] | OList vs \<Rightarrow> h)"

definition append_h :: "addr \<Rightarrow> val \<Rightarrow> heap \<Rightarrow> heap" where
  "append_h a v h =
     (case h ! a of OList vs \<Rightarrow> h[a := OList (vs @ [v])] | ODict kvs \<Rightarrow> h)"

definition get_h :: "heap \<Rightarrow> addr \<Rightarrow> string \<Rightarrow> val option" where
  "get_h h a k = (case h ! a of ODict kvs \<Rightarrow> map_of kvs k | OList vs \<Rightarrow> None)"

text \<open>The loop over the metadata fields; \<open>metadata\<close> is the address of the dictionary
  that the loop fills.\<close>

definition meta_field_h :: "val \<Rightarrow> val \<Rightarrow> addr \<Rightarrow> string \<Rightarrow> heap \<Rightarrow> (exn + unit) \<times> heap" where
  "meta_field_h route_data route_meta_struct metadata field h =
     (case py_in_h h field route_meta_struct of
        Inl e \<Rightarrow> (Inl e, h)
      | Inr present \<Rightarrow>
          if present then
            (case subscript_h h route_meta_struct (VStr field) of
               Inl e \<Rightarrow> (Inl e, h)
             | Inr idx \<Rightarrow>
                 if is_pointer_h idx then
                   (case deref_h h route_data idx of
                      Inl e \<Rightarrow> (Inl e, h)
                    | Inr v \<Rightarrow> (Inr (), setitem_h metadata field v h))
                 else (Inr (), h))
          else (Inr (), h))"

fun meta_loop_h :: "val \<Rightarrow> val \<Rightarrow> addr \<Rightarrow> string list \<Rightarrow> heap \<Rightarrow> (exn + unit) \<times> heap" where
  "meta_loop_h route_data route_meta_struct metadata [] h = (Inr (), h)"
| "meta_loop_h route_data route_meta_struct metadata (field # rest) h =
     (case meta_field_h route_data route_meta_struct metadata field h of
        (Inl e, h') \<Rightarrow> (Inl e, h')
      | (Inr u, h') \<Rightarrow> meta_loop_h route_data route_meta_struct metadata rest h')"

text \<open>The loop over the point indices; \<open>points\<close> is the address of the list that the
  loop fills. Each round makes a new dictionary for the point and appends a reference
  to it.\<close>

definition point_of_h :: "val \<Rightarrow> addr \<Rightarrow> val \<Rightarrow> heap \<Rightarrow> (exn + unit) \<times> heap" where
  "point_of_h route_data points point_idx h =
     (case bind (deref_h h route_data point_idx) (\<lambda>point_refs.
           bind (subscript_h h point_refs (VInt 0)) (\<lambda>r0.
           bind (deref_h h route_data r0) (\<lambda>lat_v.
           bind (subscript_h h point_refs (VInt 1)) (\<lambda>r1.
           bind (deref_h h route_data r1) (\<lambda>lng_v.
           bind (subscript_h h point_refs (VInt 2)) (\<lambda>r2.
           bind (deref_h h route_data r2) (\<lambda>ele_v.
           Inr (lat_v, lng_v, ele_v)))))))) of
        Inl e \<Rightarrow> (Inl e, h)
      | Inr (lat_v, lng_v, ele_v) \<Rightarrow>
          let (p, h') = alloc (ODict [(''lat'', lat_v), (''lng'', lng_v), (''ele'', ele_v)]) h
          in (Inr (), append_h points (VRef p) h'))"

fun points_loop_h :: "val \<Rightarrow> addr \<Rightarrow> val list \<Rightarrow> heap \<Rightarrow> (exn + unit) \<times> heap" where
  "points_loop_h route_data points [] h = (Inr (), h)"
| "points_loop_h route_data points (point_idx # rest) h =
     (case point_of_h route_data points point_idx h of
        (Inl e, h') \<Rightarrow> (Inl e, h')
      | (Inr u, h') \<Rightarrow> points_loop_h route_data points rest h')"

text \<open>\<open>text_of h v\<close> is \<^verbatim>\<open>str(v)\<close> for a value of the heap \<open>h\<close>.\<close>

definition derive_name_h :: "(heap \<Rightarrow> val \<Rightarrow> string) \<Rightarrow> heap \<Rightarrow> addr \<Rightarrow> val" where
  "derive_name_h text_of h metadata =
     (let title = (case get_h h metadata ''title'' of None \<Rightarrow> VNone | Some v \<Rightarrow> v) in
      if truthy_h h title then title
      else VStr (''Route '' @
             text_of h (case get_h h metadata ''id'' of None \<Rightarrow> VStr ''Unknown'' | Some v \<Rightarrow> v)))"

text \<open>\<^verbatim>\<open>extract_route_info\<close> on the heap: it returns the references to the list of
  points and to the metadata dictionary, the name, and the heap it leaves.\<close>

definition extract_route_info_h ::
    "(heap \<Rightarrow> val \<Rightarrow> string) \<Rightarrow> val \<Rightarrow> heap \<Rightarrow> (exn + val \<times> val \<times> val) \<times> heap" where
  "extract_route_info_h text_of data h =
     (case bind (subscript_h h data (VStr ''nodes'')) (\<lambda>nodes.
           bind (subscript_h h nodes (VInt 2)) (\<lambda>node.
           bind (subscript_h h node (VStr ''data'')) (\<lambda>route_data.
           bind (subscript_h h route_data (VInt 0)) (\<lambda>route_info.
           bind (subscript_h h route_info (VStr ''latLngData'')) (\<lambda>lat_lng_idx.
           bind (subscript_h h route_info (VStr ''route'')) (\<lambda>route_meta_idx.
           bind (deref_h h route_data route_meta_idx) (\<lambda>route_meta_struct.
           Inr (route_data, lat_lng_idx, route_meta_struct)))))))) of
        Inl e \<Rightarrow> (Inl e, h)
      | Inr (route_data, lat_lng_idx, route_meta_struct) \<Rightarrow>
          let (metadata, h1) = alloc (ODict []) h in
          case meta_loop_h route_data route_meta_struct metadata fields_list h1 of
            (Inl e, h2) \<Rightarrow> (Inl e, h2)
          | (Inr u, h2) \<Rightarrow>
              let route_name = derive_name_h text_of h2 metadata in
              case deref_h h2 route_data lat_lng_idx of
                Inl e \<Rightarrow> (Inl e, h2)
              | Inr point_indices \<Rightarrow>
                  let (points, h3) = alloc (OList []) h2 in
                  case py_iter_h h3 point_indices of
                    Inl e \<Rightarrow> (Inl e, h3)
                  | Inr idxs \<Rightarrow>
                      (case points_loop_h route_data points idxs h3 of
                         (Inl e, h4) \<Rightarrow> (Inl e, h4)
                       | (Inr u, h4) \<Rightarrow>
                           (Inr (VRef points, VRef metadata, route_name), h4)))"

text \<open>The tree of a decoded point, and what it means for the result of a decode on the
  heap to be the result of the decode on the tree.\<close>

definition point_json :: "point \<Rightarrow> json" where
  "point_json p = JObj [(''lat'', lat p), (''lng'', lng p), (''ele'', ele p)]"

fun same_outcome ::
    "heap \<Rightarrow> exn + val \<times> val \<times> val \<Rightarrow> exn + point list \<times> metadata \<times> json \<Rightarrow> bool" where
  "same_outcome h (Inl e) (Inl e') = (e = e')"
| "same_outcome h (Inr (pv, mv, nv)) (Inr (points, metadata, name)) =
     (represents h pv (JArr (map point_json points))
      \<and> represents h mv (JObj metadata)
      \<and> represents h nv name)"
| "same_outcome h _ _ = False"

text \<open>\<open>text_of\<close> gives a value of the heap the text that \<open>py_str\<close> gives its tree.\<close>

definition text_agrees :: "runtime \<Rightarrow> (heap \<Rightarrow> val \<Rightarrow> string) \<Rightarrow> bool" where
  "text_agrees rt text_of = (\<forall>h v j. represents h v j \<longrightarrow> text_of h v = py_str rt j)"

text \<open>The invariants of the two loops, for a run that started in the heap \<open>h0\<close>: the
  objects of \<open>h0\<close> are unchanged, the dictionary under construction (respectively the
  list of points under construction) is a new object, and what it holds so far are
  the entries (respectively the points) that the loop on the tree has produced so
  far, with values taken from \<open>h0\<close>.\<close>

definition entries_match :: "heap \<Rightarrow> (string \<times> val) list \<Rightarrow> (string \<times> json) list \<Rightarrow> bool" where
  "entries_match h0 kvs kjs =
     list_all2 (\<lambda>kv kj. fst kv = fst kj \<and> represents h0 (snd kv) (snd kj)) kvs kjs"

definition meta_inv :: "heap \<Rightarrow> addr \<Rightarrow> heap \<Rightarrow> metadata \<Rightarrow> bool" where
  "meta_inv h0 m H md =
     (take (length h0) H = h0 \<and> length h0 \<le> m \<and> m < length H \<and>
      (case H ! m of ODict kvs \<Rightarrow> entries_match h0 kvs md | OList vs \<Rightarrow> False))"

definition point_at :: "heap \<Rightarrow> addr \<Rightarrow> heap \<Rightarrow> val \<Rightarrow> point \<Rightarrow> bool" where
  "point_at h0 p H pv pt =
     (case pv of
        VRef a \<Rightarrow> length h0 \<le> a \<and> a < length H \<and> a \<noteq> p \<and>
          (case H ! a of
             ODict kvs \<Rightarrow>
               entries_match h0 kvs [(''lat'', lat pt), (''lng'', lng pt), (''ele'', ele pt)]
           | OList vs \<Rightarrow> False)
      | _ \<Rightarrow> False)"

definition points_inv :: "heap \<Rightarrow> addr \<Rightarrow> heap \<Rightarrow> point list \<Rightarrow> bool" where
  "points_inv h0 p H pts =
     (take (length h0) H = h0 \<and> length h0 \<le> p \<and> p < length H \<and>
      (case H ! p of OList pvs \<Rightarrow> list_all2 (point_at h0 p H) pvs pts | ODict kvs \<Rightarrow> False))"

section \<open>Example documents\<close>

text \<open>A runtime and an environment to evaluate the program with.\<close>

definition sample_runtime :: runtime where
  "sample_runtime = \<lparr>repr_of = (\<lambda>v. ''<repr>''), message_of = (\<lambda>e. ''<message>'')\<rparr>"

text \<open>
  A store with a route record, a point-index list of two points, a metadata record
  and the literals they point to: latitudes 40.0 and 40.1, longitudes -105.0 and
  -105.1, elevations 1600 and 1620, an identifier, a title, a distance and an
  elevation gain. The city is stored as the raw value 0, the state as \<^verbatim>\<open>False\<close> and
  the country as \<^verbatim>\<open>True\<close>.
\<close>

definition sample_store :: "json list" where
  "sample_store =
     [JObj [(''latLngData'', JInt 1), (''route'', JInt 2)],
      JArr [JInt 3, JInt 4],
      JObj [(''id'', JInt 5), (''title'', JInt 6), (''distance'', JInt 7),
            (''elevation'', JInt 8), (''geo_city'', JInt 0),
            (''geo_state'', JBool False), (''geo_country'', JBool True)],
      JArr [JInt 9, JInt 11, JInt 13],
      JArr [JInt 10, JInt 12, JInt 14],
      JInt 8771,
      JStr ''Test Loop'',
      JInt 500000,
      JInt 5000,
      JFloat (Fin False 40 0),
      JFloat (Fin False 5643573283048653 (- 47)),
      JFloat (Fin True 105 0),
      JFloat (Fin True 3697877506536243 (- 45)),
      JInt 1600,
      JInt 1620]"

definition document_of :: "json list \<Rightarrow> json" where
  "document_of store = JObj [(''nodes'', JArr [JNull, JNull, JObj [(''data'', JArr store)]])]"

definition sample_points :: "point list" where
  "sample_points =
     [\<lparr>lat = JFloat (Fin False 40 0), lng = JFloat (Fin True 105 0), ele = JInt 1600\<rparr>,
      \<lparr>lat = JFloat (Fin False 5643573283048653 (- 47)),
       lng = JFloat (Fin True 3697877506536243 (- 45)), ele = JInt 1620\<rparr>]"

definition sample_metadata :: metadata where
  "sample_metadata =
     [(''id'', JInt 8771), (''title'', JStr ''Test Loop''), (''distance'', JInt 500000),
      (''elevation'', JInt 5000), (''geo_country'', JArr [JInt 3, JInt 4])]"

text \<open>A store whose metadata record holds the raw value 0 for the distance, and no
  points.\<close>

definition zero_store :: "json list" where
  "zero_store =
     [JObj [(''latLngData'', JInt 1), (''route'', JInt 2)],
      JArr [],
      JObj [(''distance'', JInt 0)]]"

text \<open>A store whose only point record has four references, and one whose only point
  record has two.\<close>

definition long_record_store :: "json list" where
  "long_record_store =
     [JObj [(''latLngData'', JInt 1), (''route'', JInt 2)],
      JArr [JInt 3],
      JObj [],
      JArr [JInt 4, JInt 5, JInt 6, JInt 7],
      JInt 40, JInt 50, JInt 60, JInt 70]"

text \<open>A store whose only point has a latitude cell \<^verbatim>\<open>null\<close> and a longitude cell
  0.0.\<close>

definition null_latitude_store :: "json list" where
  "null_latitude_store =
     [JObj [(''latLngData'', JInt 1), (''route'', JInt 2)],
      JArr [JInt 3],
      JObj [],
      JArr [JInt 4, JInt 5, JInt 6],
      JNull, JFloat (Fin False 0 0), JInt 1600]"

definition short_record_store :: "json list" where
  "short_record_store =
     [JObj [(''latLngData'', JInt 1), (''route'', JInt 2)],
      JArr [JInt 3],
      JObj [],
      JArr [JInt 4, JInt 5],
      JInt 40, JInt 50]"

text \<open>A metadata dictionary with a city, an empty state and a country.\<close>

definition located_metadata :: metadata where
  "located_metadata =
     [(''geo_city'', JStr ''Boulder''), (''geo_state'', JStr ''''), (''geo_country'', JStr ''US''),
      (''distance'', JInt 500000), (''elevation'', JInt 5000)]"

text \<open>An environment in which the request is answered with the given status and
  document, serialisation succeeds and every path can be opened; and a world with no
  files and no output yet.\<close>

definition sample_env :: "nat \<Rightarrow> json \<Rightarrow> env" where
  "sample_env status doc =
     \<lparr>runtime = sample_runtime,
      http_get = (\<lambda>url. Inr \<lparr>status_code = status, json_body = Inr doc\<rparr>),
      to_xml = (\<lambda>g. Inr ''<gpx/>''),
      clock = 0,
      can_open = (\<lambda>p. True)\<rparr>"

definition empty_world :: world where
  "empty_world = \<lparr>files = (\<lambda>p. None), out = [], err = [], calls = []\<rparr>"

text \<open>A heap that holds a document with a store of one point, an identifier, and a
  title stored as the raw value 0; and the text of a value for \<open>sample_runtime\<close>.\<close>

definition small_store :: "json list" where
  "small_store =
     [JObj [(''latLngData'', JInt 1), (''route'', JInt 2)],
      JArr [JInt 3],
      JObj [(''id'', JInt 4), (''title'', JInt 0)],
      JArr [JInt 5, JInt 6, JInt 7],
      JInt 8771, JInt 40, JInt 50, JInt 60]"

definition small_heap :: heap where
  "small_heap =
     [ODict [(''latLngData'', VInt 1), (''route'', VInt 2)],
      OList [VInt 3],
      ODict [(''id'', VInt 4), (''title'', VInt 0)],
      OList [VInt 5, VInt 6, VInt 7],
      OList [VRef 0, VRef 1, VRef 2, VRef 3, VInt 8771, VInt 40, VInt 50, VInt 60],
      ODict [(''data'', VRef 4)],
      OList [VNone, VNone, VRef 5],
      ODict [(''nodes'', VRef 6)]]"

fun sample_text_of :: "heap \<Rightarrow> val \<Rightarrow> string" where
  "sample_text_of h VNone = ''None''"
| "sample_text_of h (VBool b) = (if b then ''True'' else ''False'')"
| "sample_text_of h (VInt i) = show_int i"
| "sample_text_of h (VStr s) = s"
| "sample_text_of h v = ''<repr>''"

section \<open>Properties of the decoder, the track builder and the program\<close>

subsection \<open>Exceptions as values\<close>

lemma bind_Inl [simp]: "bind (Inl e) f = Inl e" by (simp add: bind_def)
lemma bind_Inr [simp]: "bind (Inr x) f = f x" by (simp add: bind_def)

lemma bind_eq_Inr: "bind m f = Inr y \<longleftrightarrow> (\<exists>x. m = Inr x \<and> f x = Inr y)"
  by (cases m) simp_all

lemma bind_eq_Inl: "bind m f = Inl e \<longleftrightarrow> (m = Inl e \<or> (\<exists>x. m = Inr x \<and> f x = Inl e))"
  by (cases m) simp_all

text \<open>Every exception the decoder raises is one of the three structure errors.\<close>

lemma seq_item_error: "seq_item xs i = Inl e \<Longrightarrow> e = IndexError"
  by (auto simp: seq_item_def split: if_splits)

lemma subscript_error: "subscript v k = Inl e \<Longrightarrow> is_structure_error e"
  by (cases v; cases k) (auto simp: bind_eq_Inl split: option.splits if_splits dest: seq_item_error)

lemma deref_error: "deref v k = Inl e \<Longrightarrow> is_structure_error e"
  by (simp add: deref_def subscript_error)

lemma py_in_error: "py_in f v = Inl e \<Longrightarrow> is_structure_error e"
  by (cases v) auto

lemma py_iter_error: "py_iter v = Inl e \<Longrightarrow> is_structure_error e"
  by (cases v) auto

lemma meta_field_error: "meta_field rd s md f = Inl e \<Longrightarrow> is_structure_error e"
  by (auto simp: meta_field_def bind_eq_Inl split: if_splits dest: py_in_error subscript_error deref_error)

lemma meta_loop_error: "meta_loop rd s md fs = Inl e \<Longrightarrow> is_structure_error e"
  by (induction fs arbitrary: md) (auto simp: bind_eq_Inl dest: meta_field_error)

lemma point_of_error: "point_of rd i = Inl e \<Longrightarrow> is_structure_error e"
  by (auto simp: point_of_def bind_eq_Inl dest: subscript_error deref_error)

lemma points_loop_error: "points_loop rd acc is = Inl e \<Longrightarrow> is_structure_error e"
  by (induction "is" arbitrary: acc) (auto simp: bind_eq_Inl dest: point_of_error)

lemma extract_route_info_error: "extract_route_info rt data = Inl e \<Longrightarrow> is_structure_error e"
  unfolding extract_route_info_def
  by (auto simp: bind_eq_Inl dest: subscript_error deref_error meta_loop_error py_iter_error points_loop_error)

subsection \<open>The decoder step by step\<close>

text \<open>A successful decode went through every step of \<open>extract_route_info\<close>; once the
  three structural values are found, the rest of the decode is the two loops.\<close>

lemma extract_route_info_Inr:
  assumes "extract_route_info rt data = Inr (points, metadata, name)"
  obtains route_data route_meta_struct point_indices idxs where
    "route_data_of data = Inr route_data"
    "route_meta_struct_of data = Inr route_meta_struct"
    "point_indices_of data = Inr point_indices"
    "meta_loop route_data route_meta_struct [] fields_list = Inr metadata"
    "py_iter point_indices = Inr idxs"
    "points_loop route_data [] idxs = Inr points"
    "name = derive_name rt metadata"
  using assms
  unfolding extract_route_info_def route_data_of_def route_meta_struct_of_def point_indices_of_def
  by (auto simp: bind_eq_Inr)

lemma extract_route_info_compose:
  assumes "route_data_of data = Inr route_data"
    and "route_meta_struct_of data = Inr route_meta_struct"
    and "point_indices_of data = Inr point_indices"
  shows "extract_route_info rt data =
     bind (meta_loop route_data route_meta_struct [] fields_list) (\<lambda>metadata.
     bind (py_iter point_indices) (\<lambda>idxs.
     bind (points_loop route_data [] idxs) (\<lambda>points.
     Inr (points, metadata, derive_name rt metadata))))"
  using assms
  unfolding extract_route_info_def route_data_of_def route_meta_struct_of_def point_indices_of_def
  by (auto simp: bind_eq_Inr)

text \<open>Only a list passes \<^verbatim>\<open>route_data[0]\<close> followed by a lookup with a string key.\<close>
lemma route_data_is_list:
  assumes "route_data_of data = Inr route_data" and "point_indices_of data = Inr pis"
  obtains store where "route_data = JArr store"
  using assms unfolding point_indices_of_def
  by (cases route_data) (auto simp: bind_eq_Inr split: if_splits option.splits json.splits)

subsection \<open>Evaluating the example documents\<close>

lemmas decode_simps =
  extract_route_info_def document_of_def deref_def seq_item_def fields_list_def
  meta_field_def point_of_def derive_name_def dict_get_def
  route_data_of_def route_meta_struct_of_def point_indices_of_def

lemma sample_decode:
  "extract_route_info rt (document_of sample_store) =
     Inr (sample_points, sample_metadata, JStr ''Test Loop'')"
  by (simp add: decode_simps sample_store_def sample_points_def sample_metadata_def)

lemma route_data_of_document: "route_data_of (document_of store) = Inr (JArr store)"
  by (simp add: decode_simps)

lemma sample_meta_struct:
  "route_meta_struct_of (document_of sample_store) =
     Inr (JObj [(''id'', JInt 5), (''title'', JInt 6), (''distance'', JInt 7),
                (''elevation'', JInt 8), (''geo_city'', JInt 0),
                (''geo_state'', JBool False), (''geo_country'', JBool True)])"
  by (simp add: decode_simps sample_store_def)

lemma sample_point_indices:
  "point_indices_of (document_of sample_store) = Inr (JArr [JInt 3, JInt 4])"
  by (simp add: decode_simps sample_store_def)

subsection \<open>The single-level dereference\<close>

text \<open>
  C2, as the code has it. \<open>deref\<close> on a store (a list) and an integer \<open>i\<close> returns the
  cell \<open>store[i]\<close> when \<open>0 \<le> i < len(store)\<close>. It is Python's list subscription, so an
  index with \<open>-len(store) \<le> i < 0\<close> is not an error: it returns the cell
  \<open>store[len(store) + i]\<close>, counted from the end. Every other index raises
  \<^verbatim>\<open>IndexError\<close>, one of the structure errors; no default value is ever returned.
\<close>

theorem deref_list_index:
  "deref (JArr store) (JInt i) =
     (if 0 \<le> i \<and> i < int (length store) then Inr (store ! nat i)
      else if - int (length store) \<le> i \<and> i < 0 then Inr (store ! nat (int (length store) + i))
      else Inl IndexError)
   \<and> is_structure_error IndexError"
  by (simp add: deref_def seq_item_def add.commute)

text \<open>C2 as stated fails: on a store of three cells the index \<open>-1\<close> is outside
  \<open>0 \<le> i < 3\<close>, and \<open>deref\<close> returns the last cell instead of failing.\<close>

theorem deref_negative_index_wraps:
  "deref (JArr [JInt 10, JInt 20, JInt 30]) (JInt (- 1)) = Inr (JInt 30)"
  by (simp add: deref_def seq_item_def)

subsection \<open>Metadata field resolution\<close>

lemma map_of_dict_set: "map_of (dict_set d k v) = (map_of d)(k \<mapsto> v)"
  by (induction d) auto

text \<open>One round of the loop leaves a key alone unless it is the field of this round,
  the record has the field, and the raw value passes the pointer test.\<close>

lemma meta_field_skipped:
  assumes "meta_field rd (JObj kvs) md f = Inr md'"
    and "g \<noteq> f \<or> map_of kvs f = None \<or> (\<exists>raw. map_of kvs f = Some raw \<and> \<not> is_pointer raw)"
  shows "map_of md' g = map_of md g"
  using assms
  by (auto simp: meta_field_def bind_eq_Inr map_of_dict_set split: if_splits)

lemma meta_field_resolved:
  assumes "meta_field rd (JObj kvs) md f = Inr md'"
    and "map_of kvs f = Some raw" and "is_pointer raw"
  shows "\<exists>v. deref rd raw = Inr v \<and> map_of md' f = Some v"
  using assms by (auto simp: meta_field_def bind_eq_Inr map_of_dict_set split: if_splits)

lemma meta_loop_skipped:
  assumes "meta_loop rd (JObj kvs) md fs = Inr md'"
    and "g \<notin> set fs \<or> map_of kvs g = None \<or> (\<exists>raw. map_of kvs g = Some raw \<and> \<not> is_pointer raw)"
  shows "map_of md' g = map_of md g"
  using assms
proof (induction fs arbitrary: md)
  case Nil
  then show ?case by simp
next
  case (Cons f fs)
  from Cons.prems(1) obtain md1 where 1: "meta_field rd (JObj kvs) md f = Inr md1"
    and 2: "meta_loop rd (JObj kvs) md1 fs = Inr md'"
    by (auto simp: bind_eq_Inr)
  have "map_of md' g = map_of md1 g"
    using Cons.IH[OF 2] Cons.prems(2) by auto
  moreover have "map_of md1 g = map_of md g"
    using meta_field_skipped[OF 1, of g] Cons.prems(2) by auto
  ultimately show ?case by simp
qed

lemma meta_loop_resolved:
  assumes "meta_loop rd (JObj kvs) md fs = Inr md'"
    and "f \<in> set fs" and "map_of kvs f = Some raw" and "is_pointer raw"
  shows "\<exists>v. deref rd raw = Inr v \<and> map_of md' f = Some v"
  using assms
proof (induction fs arbitrary: md)
  case Nil
  then show ?case by simp
next
  case (Cons g fs)
  from Cons.prems(1) obtain md1 where 1: "meta_field rd (JObj kvs) md g = Inr md1"
    and 2: "meta_loop rd (JObj kvs) md1 fs = Inr md'"
    by (auto simp: bind_eq_Inr)
  show ?case
  proof (cases "f \<in> set fs")
    case True
    then show ?thesis using Cons.IH[OF 2] Cons.prems by simp
  next
    case False
    with Cons.prems have fg: "g = f" by simp
    from meta_field_resolved[OF 1[unfolded fg] Cons.prems(3,4)]
    obtain v where v: "deref rd raw = Inr v" "map_of md1 f = Some v" by blast
    from meta_loop_skipped[OF 2, of f] False have "map_of md' f = map_of md1 f" by simp
    with v show ?thesis by simp
  qed
qed

text \<open>
  C1, as the code has it. Let a decode succeed, and let the metadata record (a
  dictionary) hold the raw value \<open>raw\<close> under a recognized field key \<open>f\<close>. If \<open>raw\<close> is
  an integer strictly greater than zero, the decoder performs one \<open>deref\<close> on the store
  and the output metadata holds the resolved cell under \<open>f\<close>. Otherwise the loop does
  nothing for this field: \<open>raw\<close> is not dereferenced and the output metadata has no
  entry for \<open>f\<close>. In particular a raw value of 0 is never dereferenced, and the field
  is left out of the output metadata.
\<close>

theorem metadata_field_policy:
  assumes "extract_route_info rt data = Inr (points, metadata, name)"
    and "route_data_of data = Inr route_data"
    and "route_meta_struct_of data = Inr (JObj kvs)"
    and "f \<in> set fields_list"
    and "map_of kvs f = Some raw"
  shows "(is_pointer raw \<longrightarrow> (\<exists>v. deref route_data raw = Inr v \<and> map_of metadata f = Some v))
       \<and> (\<not> is_pointer raw \<longrightarrow> map_of metadata f = None)
       \<and> (raw = JInt 0 \<longrightarrow> map_of metadata f = None)"
proof -
  from assms(1) obtain rd rms where "route_data_of data = Inr rd"
    and "route_meta_struct_of data = Inr rms"
    and "meta_loop rd rms [] fields_list = Inr metadata"
    by (rule extract_route_info_Inr)
  with assms(2,3) have loop: "meta_loop route_data (JObj kvs) [] fields_list = Inr metadata"
    by simp
  have a: "is_pointer raw \<Longrightarrow> \<exists>v. deref route_data raw = Inr v \<and> map_of metadata f = Some v"
    using meta_loop_resolved[OF loop assms(4,5)] .
  have b: "\<not> is_pointer raw \<Longrightarrow> map_of metadata f = None"
    using meta_loop_skipped[OF loop, of f] assms(5) by simp
  from a b show ?thesis by auto
qed

text \<open>On the sample store the distance is stored as the pointer 7 and the city as the
  raw value 0.\<close>

theorem metadata_field_policy_witness:
  "map_of sample_metadata ''distance'' = Some (JInt 500000)
   \<and> map_of sample_metadata ''geo_city'' = None"
proof -
  have d: "extract_route_info sample_runtime (document_of sample_store)
        = Inr (sample_points, sample_metadata, JStr ''Test Loop'')"
    by (rule sample_decode)
  have 1: "map_of sample_metadata ''distance'' = Some (JInt 500000)"
    using metadata_field_policy[OF d route_data_of_document sample_meta_struct,
        of "''distance''" "JInt 7"]
    by (simp add: fields_list_def deref_def seq_item_def sample_store_def)
  have 2: "map_of sample_metadata ''geo_city'' = None"
    using metadata_field_policy[OF d route_data_of_document sample_meta_struct,
        of "''geo_city''" "JInt 0"]
    by (simp add: fields_list_def)
  from 1 2 show ?thesis by simp
qed

text \<open>C1 as stated fails: a metadata record that holds the raw value 0 for the distance
  decodes to an empty metadata dictionary; the literal 0 does not appear in it.\<close>

theorem zero_raw_value_is_omitted:
  "extract_route_info sample_runtime (document_of zero_store) =
     Inr ([], [], JStr ''Route Unknown'')"
  by (simp add: decode_simps zero_store_def)

text \<open>
  C9. Let a decode succeed, and let the metadata record hold a boolean under a
  recognized field key \<open>f\<close>. For \<^verbatim>\<open>True\<close> the pointer test holds and the value is
  dereferenced as the index 1: the output metadata holds the cell at store index 1
  under \<open>f\<close>. For \<^verbatim>\<open>False\<close> the pointer test fails, nothing is dereferenced, and the
  output metadata has no entry for \<open>f\<close>.
\<close>

theorem boolean_raw_values:
  assumes "extract_route_info rt data = Inr (points, metadata, name)"
    and "route_data_of data = Inr route_data"
    and "route_meta_struct_of data = Inr (JObj kvs)"
    and "f \<in> set fields_list"
  shows "(map_of kvs f = Some (JBool True) \<longrightarrow>
            (\<exists>store. route_data = JArr store \<and> 1 < length store
                     \<and> map_of metadata f = Some (store ! 1)))
       \<and> (map_of kvs f = Some (JBool False) \<longrightarrow> map_of metadata f = None)
       \<and> is_pointer (JBool True) \<and> \<not> is_pointer (JBool False)"
proof -
  from assms(1) obtain rd rms pis where "route_data_of data = Inr rd"
    and "route_meta_struct_of data = Inr rms"
    and pis: "point_indices_of data = Inr pis"
    and "meta_loop rd rms [] fields_list = Inr metadata"
    by (rule extract_route_info_Inr)
  with assms(2,3) have loop: "meta_loop route_data (JObj kvs) [] fields_list = Inr metadata"
    by simp
  from assms(2) pis obtain store where store: "route_data = JArr store"
    by (rule route_data_is_list)
  have a: "\<exists>store. route_data = JArr store \<and> 1 < length store
              \<and> map_of metadata f = Some (store ! 1)"
    if t: "map_of kvs f = Some (JBool True)"
  proof -
    from meta_loop_resolved[OF loop assms(4) t]
    obtain v where v: "deref route_data (JBool True) = Inr v" "map_of metadata f = Some v"
      by auto
    from v(1) store have "1 < length store \<and> v = store ! 1"
      by (auto simp: deref_def seq_item_def split: if_splits)
    with v(2) store show ?thesis by simp
  qed
  have b: "map_of metadata f = None" if "map_of kvs f = Some (JBool False)"
    using meta_loop_skipped[OF loop, of f] that by simp
  from a b show ?thesis by simp
qed

text \<open>On the sample store the country is stored as \<^verbatim>\<open>True\<close> and the state as
  \<^verbatim>\<open>False\<close>: the country becomes the cell at index 1, the state is absent.\<close>

theorem boolean_raw_values_witness:
  "map_of sample_metadata ''geo_country'' = Some (sample_store ! 1)
   \<and> map_of sample_metadata ''geo_state'' = None"
proof -
  have d: "extract_route_info sample_runtime (document_of sample_store)
        = Inr (sample_points, sample_metadata, JStr ''Test Loop'')"
    by (rule sample_decode)
  have 1: "map_of sample_metadata ''geo_country'' = Some (sample_store ! 1)"
    using boolean_raw_values[OF d route_data_of_document sample_meta_struct,
        of "''geo_country''"]
    by (simp add: fields_list_def)
  have 2: "map_of sample_metadata ''geo_state'' = None"
    using boolean_raw_values[OF d route_data_of_document sample_meta_struct,
        of "''geo_state''"]
    by (simp add: fields_list_def)
  from 1 2 show ?thesis by simp
qed

subsection \<open>Point-list resolution\<close>

text \<open>A point is produced exactly when the seven lookups of the loop body succeed.\<close>

lemma point_of_Inr:
  "point_of rd idx = Inr p \<longleftrightarrow>
     (\<exists>refs r0 r1 r2.
        deref rd idx = Inr refs \<and>
        subscript refs (JInt 0) = Inr r0 \<and> deref rd r0 = Inr (lat p) \<and>
        subscript refs (JInt 1) = Inr r1 \<and> deref rd r1 = Inr (lng p) \<and>
        subscript refs (JInt 2) = Inr r2 \<and> deref rd r2 = Inr (ele p))"
  unfolding point_of_def
  by (cases p) (auto simp: bind_eq_Inr)

text \<open>The loop appends one point per index, in the order of the indices, and it
  succeeds exactly when every index resolves to a point.\<close>

lemma points_loop_Inr:
  assumes "points_loop rd acc idxs = Inr pts"
  shows "\<exists>ps. pts = acc @ ps \<and> list_all2 (\<lambda>idx p. point_of rd idx = Inr p) idxs ps"
  using assms
proof (induction idxs arbitrary: acc)
  case Nil
  then show ?case by simp
next
  case (Cons idx idxs)
  from Cons.prems obtain p where p: "point_of rd idx = Inr p"
    and rest: "points_loop rd (acc @ [p]) idxs = Inr pts"
    by (auto simp: bind_eq_Inr)
  from Cons.IH[OF rest] obtain ps where "pts = (acc @ [p]) @ ps"
    and "list_all2 (\<lambda>idx p. point_of rd idx = Inr p) idxs ps" by blast
  with p have "pts = acc @ (p # ps) \<and> list_all2 (\<lambda>idx p. point_of rd idx = Inr p) (idx # idxs) (p # ps)"
    by simp
  then show ?case by blast
qed

lemma points_loop_total:
  assumes "list_all2 (\<lambda>idx p. point_of rd idx = Inr p) idxs ps"
  shows "points_loop rd acc idxs = Inr (acc @ ps)"
  using assms
  by (induction idxs ps arbitrary: acc rule: list_all2_induct) simp_all

lemma short_record_fails:
  assumes "deref rd idx = Inr (JArr refs)" and "length refs < 3"
  shows "point_of rd idx \<noteq> Inr p"
  using assms
  by (auto simp: point_of_Inr seq_item_def split: if_splits)

lemma long_record_prefix:
  assumes "deref rd idx = Inr (JArr refs)" and "3 \<le> length refs"
  shows "point_of rd idx =
           bind (deref rd (refs ! 0)) (\<lambda>a.
           bind (deref rd (refs ! 1)) (\<lambda>b.
           bind (deref rd (refs ! 2)) (\<lambda>c.
           Inr \<lparr>lat = a, lng = b, ele = c\<rparr>)))"
proof -
  from assms(2) have "0 < length refs" "1 < length refs" "2 < length refs" by auto
  then show ?thesis
    using assms(1) by (simp add: point_of_def seq_item_def)
qed

text \<open>
  C3, as the code has it. The loop body reads \<^verbatim>\<open>point_refs[0]\<close>, \<^verbatim>\<open>point_refs[1]\<close>
  and \<^verbatim>\<open>point_refs[2]\<close> and never looks at the length of the list. A point record
  whose resolved reference list has fewer than 3 elements makes the whole decode fail
  with a structure error; no point is skipped. A reference list with 3 or more
  elements is accepted, and the point is resolved from its first three references.
\<close>

theorem point_record_length:
  assumes "route_data_of data = Inr route_data"
    and "point_indices_of data = Inr point_indices"
    and "py_iter point_indices = Inr idxs"
    and "idx \<in> set idxs"
    and "deref route_data idx = Inr (JArr refs)"
  shows "(length refs < 3 \<longrightarrow> (\<exists>e. extract_route_info rt data = Inl e \<and> is_structure_error e))
       \<and> (3 \<le> length refs \<longrightarrow>
            point_of route_data idx =
              bind (deref route_data (refs ! 0)) (\<lambda>a.
              bind (deref route_data (refs ! 1)) (\<lambda>b.
              bind (deref route_data (refs ! 2)) (\<lambda>c.
              Inr \<lparr>lat = a, lng = b, ele = c\<rparr>))))"
proof -
  have short: "\<exists>e. extract_route_info rt data = Inl e \<and> is_structure_error e" if len: "length refs < 3"
  proof (cases "extract_route_info rt data")
    case (Inl e)
    then show ?thesis using extract_route_info_error by blast
  next
    case (Inr r)
    obtain points metadata name where r: "r = (points, metadata, name)"
      by (cases r)
    from Inr[unfolded r] obtain rd pis is' where "route_data_of data = Inr rd"
      and "point_indices_of data = Inr pis" and "py_iter pis = Inr is'"
      and lp: "points_loop rd [] is' = Inr points"
      by (rule extract_route_info_Inr)
    with assms(1-3) have "points_loop route_data [] idxs = Inr points" by simp
    from points_loop_Inr[OF this] have "list_all2 (\<lambda>idx p. point_of route_data idx = Inr p) idxs points"
      by simp
    with assms(4) obtain p where "point_of route_data idx = Inr p"
      by (auto simp: list_all2_conv_all_nth in_set_conv_nth)
    with short_record_fails[OF assms(5) len, of p] show ?thesis by simp
  qed
  show ?thesis
    using short long_record_prefix[OF assms(5)] by blast
qed

text \<open>A record of two references aborts the decode with \<^verbatim>\<open>IndexError\<close>; a record
  of four references resolves through its first three.\<close>

lemma short_point_indices: "point_indices_of (document_of short_record_store) = Inr (JArr [JInt 3])"
  by (simp add: decode_simps short_record_store_def)

lemma long_point_indices: "point_indices_of (document_of long_record_store) = Inr (JArr [JInt 3])"
  by (simp add: decode_simps long_record_store_def)

theorem point_record_length_witness:
  "extract_route_info sample_runtime (document_of short_record_store) = Inl IndexError
   \<and> is_structure_error IndexError
   \<and> point_of (JArr long_record_store) (JInt 3) = Inr \<lparr>lat = JInt 40, lng = JInt 50, ele = JInt 60\<rparr>"
proof -
  have 1: "\<exists>e. extract_route_info sample_runtime (document_of short_record_store) = Inl e \<and> is_structure_error e"
    using point_record_length[OF route_data_of_document short_point_indices, of "[JInt 3]" "JInt 3"
        "[JInt 4, JInt 5]" sample_runtime]
    by (simp add: deref_def seq_item_def short_record_store_def)
  have 2: "point_of (JArr long_record_store) (JInt 3) = Inr \<lparr>lat = JInt 40, lng = JInt 50, ele = JInt 60\<rparr>"
    using point_record_length[OF route_data_of_document long_point_indices, of "[JInt 3]" "JInt 3"
        "[JInt 4, JInt 5, JInt 6, JInt 7]" sample_runtime]
    by (simp add: deref_def seq_item_def long_record_store_def)
  have 3: "extract_route_info sample_runtime (document_of short_record_store) = Inl IndexError"
    by (simp add: decode_simps short_record_store_def)
  from 1 2 3 show ?thesis by simp
qed

text \<open>C3 as stated fails: a point record of four references does not contain exactly
  3 elements, and the decode succeeds with the point of its first three.\<close>

theorem long_point_record_is_accepted:
  "extract_route_info sample_runtime (document_of long_record_store) =
     Inr ([\<lparr>lat = JInt 40, lng = JInt 50, ele = JInt 60\<rparr>], [], JStr ''Route Unknown'')"
  by (simp add: decode_simps long_record_store_def)

subsection \<open>The description of the built document\<close>

text \<open>Evaluation of the number formatting on the figures used below.\<close>

lemma bit_length_numerals:
  "bit_length 100 = 7" "bit_length 5000 = 13" "bit_length 12345 = 14"
  "bit_length 100000 = 17" "bit_length 250000 = 18" "bit_length 500000 = 19"
  by (simp_all add: bit_length.simps)

lemmas number_simps = div_round_def scaled_def round_half_even_def Let_def bit_length_numerals

lemma show_nat_digits:
  "show_nat 0 = ''0''" "show_nat 2 = ''2''" "show_nat 5 = ''5''" "show_nat 50 = ''50''" "show_nat 123 = ''123''"
  "show_nat 8771 = ''8771''"
  by (simp_all add: show_nat.simps digit_char_def)

lemma div_round_examples:
  "div_round 250000 0 100000 = Some (5629499534213120, - 51)"
  "div_round 500000 0 100000 = Some (5629499534213120, - 50)"
  "div_round 12345 0 100 = Some (8687021468732621, - 46)"
  "div_round 5000 0 100 = Some (7036874417766400, - 47)"
  by (simp_all add: number_simps)

lemma format_fixed_examples:
  "format_fixed 2 (Fin False 5629499534213120 (- 51)) = ''2.50''"
  "format_fixed 2 (Fin False 5629499534213120 (- 50)) = ''5.00''"
  by (simp_all add: number_simps show_nat_digits pad_left_def)

lemma py_round_examples:
  "py_round (Fin False 8687021468732621 (- 46)) = Inr 123"
  "py_round (Fin False 7036874417766400 (- 47)) = Inr 50"
  by (simp_all add: number_simps)

lemmas description_simps = build_description_def add_location_def add_distance_def add_elevation_def
  dict_get_def dict_item_def div_round_examples format_fixed_examples py_round_examples show_int_def show_nat_digits

lemma distance_250000: "build_description [(''distance'', JInt 250000)] = Inr ''Distance: 2.50 km''"
  by (simp add: description_simps del: format_fixed.simps py_round.simps)

lemma elevation_12345: "build_description [(''elevation'', JInt 12345)] = Inr ''Elevation gain: 123 m''"
  by (simp add: description_simps del: format_fixed.simps py_round.simps)

lemma sample_description:
  "build_description sample_metadata = Inr ''Distance: 5.00 km; Elevation gain: 50 m''"
  by (simp add: description_simps sample_metadata_def del: format_fixed.simps py_round.simps)


text \<open>What each of the three blocks appends to \<^verbatim>\<open>desc_parts\<close>.\<close>

lemma str_items_Inr: "str_items vs = Inr ss \<longleftrightarrow> vs = map JStr ss"
proof (induction vs arbitrary: ss)
  case Nil
  then show ?case by auto
next
  case (Cons v vs)
  show ?case
  proof (cases v)
    case (JStr s)
    with Cons show ?thesis by (cases ss) (auto simp: bind_eq_Inr)
  qed (cases ss; auto)+
qed

lemma join_strs_nonempty: "s \<noteq> [] \<Longrightarrow> join_strs sep (s # ss) \<noteq> []"
  by (cases ss) simp_all

lemma add_location_Inr:
  assumes "add_location md parts = Inr parts'"
  shows "\<exists>location. parts' = parts @ location \<and>
           (if truthy (dict_get md ''geo_city'')
            then \<exists>components.
                   str_items (filter truthy [dict_get md ''geo_city'', dict_get md ''geo_state'',
                                             dict_get md ''geo_country'']) = Inr components
                   \<and> location = [''Location: '' @ join_strs '', '' components]
            else location = [])"
proof (cases "truthy (dict_get md ''geo_city'')")
  case False
  with assms show ?thesis by (simp add: add_location_def)
next
  case True
  let ?vs = "filter truthy [dict_get md ''geo_city'', dict_get md ''geo_state'', dict_get md ''geo_country'']"
  from assms True obtain components where c: "str_items ?vs = Inr components"
    and p: "parts' = (if join_strs '', '' components \<noteq> [] then parts @ [''Location: '' @ join_strs '', '' components] else parts)"
    by (auto simp: add_location_def py_join_def bind_eq_Inr split: if_splits)
  from c have "?vs = map JStr components" by (simp only: str_items_Inr)
  with True obtain s ss where "components = s # ss" "dict_get md ''geo_city'' = JStr s"
    by (cases components) auto
  with True have "join_strs '', '' components \<noteq> []"
    by (simp add: join_strs_nonempty)
  with p c True show ?thesis by simp
qed

lemma add_distance_Inr:
  assumes "add_distance md parts = Inr parts'"
  shows "\<exists>line. parts' = parts @ line \<and>
           (if truthy (dict_get md ''distance'')
            then \<exists>d km. map_of md ''distance'' = Some d \<and> true_div d 100000 = Inr km
                   \<and> line = [''Distance: '' @ format_fixed 2 km @ '' km'']
            else line = [])"
  using assms
  by (auto simp: add_distance_def dict_item_def bind_eq_Inr split: if_splits option.splits)

lemma add_elevation_Inr:
  assumes "add_elevation md parts = Inr parts'"
  shows "\<exists>line. parts' = parts @ line \<and>
           (if truthy (dict_get md ''elevation'')
            then \<exists>e m r. map_of md ''elevation'' = Some e \<and> true_div e 100 = Inr m
                   \<and> py_round m = Inr r
                   \<and> line = [''Elevation gain: '' @ show_int r @ '' m'']
            else line = [])"
  using assms
  by (auto simp: add_elevation_def dict_item_def bind_eq_Inr split: if_splits option.splits)

lemma absent_not_truthy: "map_of md k = None \<Longrightarrow> \<not> truthy (dict_get md k)"
  by (simp add: dict_get_def)

lemma build_gpx_description:
  "build_gpx now points name md = Inr g \<Longrightarrow> build_description md = Inr (gpx_description g)"
  by (auto simp: build_gpx_def bind_eq_Inr)

text \<open>The description is built whenever the three location fields are strings or
  absent and the distance and the elevation are integers of at most 1023 bits or
  absent: the division then stays within the range of a float.\<close>

lemma bit_length_pos: "0 < d \<Longrightarrow> 0 < bit_length d"
  by (subst bit_length.simps) simp

lemma div_round_in_range:
  assumes "0 < d" and "bit_length m \<le> 1023"
  shows "\<exists>q t. div_round m 0 d = Some (q, t)"
proof (cases "m = 0")
  case True
  then show ?thesis by (simp add: div_round_def)
next
  case False
  define k where "k = int (bit_length m) - int (bit_length d)"
  define f where "f = (if snd (scaled m (- k) d) \<le> fst (scaled m (- k) d) then k else k - 1)"
  define t where "t = max (f - 52) (- 1074)"
  from bit_length_pos[OF assms(1)] assms(2) have "k \<le> 1022" by (simp add: k_def)
  then have "f \<le> 1022" by (simp add: f_def)
  then have "t < 971" by (simp add: t_def)
  then show ?thesis
    using False by (simp add: div_round_def Let_def k_def[symmetric] f_def[symmetric] t_def[symmetric])
qed

lemma true_div_int_in_range:
  assumes "0 < d" and "bit_length (nat \<bar>n\<bar>) \<le> 1023"
  shows "\<exists>x. true_div (JInt n) d = Inr x \<and> (\<exists>s q t. x = Fin s q t)"
  using div_round_in_range[OF assms] by auto

lemma build_description_total:
  assumes "\<forall>k \<in> {''geo_city'', ''geo_state'', ''geo_country''}.
             map_of md k = None \<or> (\<exists>s. map_of md k = Some (JStr s))"
    and "\<forall>k \<in> {''distance'', ''elevation''}.
             map_of md k = None \<or> (\<exists>n. map_of md k = Some (JInt n) \<and> bit_length (nat \<bar>n\<bar>) \<le> 1023)"
  shows "\<exists>description. build_description md = Inr description"
proof -
  have loc: "\<exists>p. add_location md parts = Inr p" for parts
  proof -
    from assms(1) obtain c s t where
      "dict_get md ''geo_city'' = JNull \<or> dict_get md ''geo_city'' = JStr c"
      "dict_get md ''geo_state'' = JNull \<or> dict_get md ''geo_state'' = JStr s"
      "dict_get md ''geo_country'' = JNull \<or> dict_get md ''geo_country'' = JStr t"
      by (auto simp: dict_get_def)
    then show ?thesis
      by (auto simp: add_location_def py_join_def)
  qed
  have dist: "\<exists>p. add_distance md parts = Inr p" for parts
  proof (cases "map_of md ''distance''")
    case None
    then show ?thesis by (simp add: add_distance_def dict_get_def)
  next
    case (Some v)
    with assms(2) obtain n where n: "v = JInt n" "bit_length (nat \<bar>n\<bar>) \<le> 1023" by auto
    from true_div_int_in_range[OF _ n(2), of 100000] obtain x where "true_div (JInt n) 100000 = Inr x"
      by auto
    with Some n show ?thesis
      by (simp add: add_distance_def dict_get_def dict_item_def del: true_div.simps)
  qed
  have elev: "\<exists>p. add_elevation md parts = Inr p" for parts
  proof (cases "map_of md ''elevation''")
    case None
    then show ?thesis by (simp add: add_elevation_def dict_get_def)
  next
    case (Some v)
    with assms(2) obtain n where n: "v = JInt n" "bit_length (nat \<bar>n\<bar>) \<le> 1023" by auto
    from true_div_int_in_range[OF _ n(2), of 100] obtain x s q t
      where "true_div (JInt n) 100 = Inr x" "x = Fin s q t"
      by auto
    with Some n show ?thesis
      by (simp add: add_elevation_def dict_get_def dict_item_def Let_def del: true_div.simps)
  qed
  from loc obtain p1 where 1: "add_location md [] = Inr p1" by blast
  from dist obtain p2 where 2: "add_distance md p1 = Inr p2" by blast
  from elev obtain p3 where 3: "add_elevation md p2 = Inr p3" by blast
  from 1 2 3 show ?thesis by (simp add: build_description_def)
qed

text \<open>
  C6. Whenever the description is built, it is the three lines, in the order
  location, distance, elevation gain, joined by \<open>''; ''\<close>, where each line is either
  missing or as follows. The location line is \<open>''Location: ''\<close> followed by the city,
  state and country that are not empty, joined by \<open>'', ''\<close>; it is there exactly when the
  city is present and not empty, so it is omitted when the city is absent. The distance
  line is \<open>''Distance: ''\<close>, the distance divided by 100000 in the format \<^verbatim>\<open>.2f\<close>, and
  \<open>'' km''\<close>; the elevation line is \<open>''Elevation gain: ''\<close>, the elevation divided by 100
  and rounded, and \<open>'' m''\<close>. Each of the two is there exactly when its value is present
  and true in Python's sense (not zero), so only if the value is present. The
  description of the built document is this text. A distance of 250000 displays as
  \<open>2.50 km\<close> and an elevation of 12345 as \<open>123 m\<close>.
\<close>

theorem description_assembly:
  "(\<forall>description. build_description metadata = Inr description \<longrightarrow>
      (\<exists>location distance elevation.
         description = join_strs ''; '' (location @ distance @ elevation)
         \<and> (if truthy (dict_get metadata ''geo_city'')
            then \<exists>components.
                   str_items (filter truthy [dict_get metadata ''geo_city'',
                                             dict_get metadata ''geo_state'',
                                             dict_get metadata ''geo_country'']) = Inr components
                   \<and> location = [''Location: '' @ join_strs '', '' components]
            else location = [])
         \<and> (if truthy (dict_get metadata ''distance'')
            then \<exists>d km. map_of metadata ''distance'' = Some d \<and> true_div d 100000 = Inr km
                   \<and> distance = [''Distance: '' @ format_fixed 2 km @ '' km'']
            else distance = [])
         \<and> (if truthy (dict_get metadata ''elevation'')
            then \<exists>e m r. map_of metadata ''elevation'' = Some e \<and> true_div e 100 = Inr m
                   \<and> py_round m = Inr r
                   \<and> elevation = [''Elevation gain: '' @ show_int r @ '' m'']
            else elevation = [])))
   \<and> (map_of metadata ''geo_city'' = None \<longrightarrow> \<not> truthy (dict_get metadata ''geo_city''))
   \<and> (map_of metadata ''distance'' = None \<longrightarrow> \<not> truthy (dict_get metadata ''distance''))
   \<and> (map_of metadata ''elevation'' = None \<longrightarrow> \<not> truthy (dict_get metadata ''elevation''))
   \<and> (\<forall>now points name g. build_gpx now points name metadata = Inr g \<longrightarrow>
         build_description metadata = Inr (gpx_description g))
   \<and> build_description [(''distance'', JInt 250000)] = Inr ''Distance: 2.50 km''
   \<and> build_description [(''elevation'', JInt 12345)] = Inr ''Elevation gain: 123 m''"
proof -
  have shape: "\<exists>location distance elevation.
         description = join_strs ''; '' (location @ distance @ elevation)
         \<and> (if truthy (dict_get metadata ''geo_city'')
            then \<exists>components.
                   str_items (filter truthy [dict_get metadata ''geo_city'',
                                             dict_get metadata ''geo_state'',
                                             dict_get metadata ''geo_country'']) = Inr components
                   \<and> location = [''Location: '' @ join_strs '', '' components]
            else location = [])
         \<and> (if truthy (dict_get metadata ''distance'')
            then \<exists>d km. map_of metadata ''distance'' = Some d \<and> true_div d 100000 = Inr km
                   \<and> distance = [''Distance: '' @ format_fixed 2 km @ '' km'']
            else distance = [])
         \<and> (if truthy (dict_get metadata ''elevation'')
            then \<exists>e m r. map_of metadata ''elevation'' = Some e \<and> true_div e 100 = Inr m
                   \<and> py_round m = Inr r
                   \<and> elevation = [''Elevation gain: '' @ show_int r @ '' m'']
            else elevation = [])"
    if "build_description metadata = Inr description" for description
  proof -
    from that obtain p1 p2 p3 where 1: "add_location metadata [] = Inr p1"
      and 2: "add_distance metadata p1 = Inr p2"
      and 3: "add_elevation metadata p2 = Inr p3"
      and d: "description = join_strs ''; '' p3"
      by (auto simp: build_description_def bind_eq_Inr)
    from add_location_Inr[OF 1] obtain l where l: "p1 = [] @ l"
      "if truthy (dict_get metadata ''geo_city'')
            then \<exists>components.
                   str_items (filter truthy [dict_get metadata ''geo_city'',
                                             dict_get metadata ''geo_state'',
                                             dict_get metadata ''geo_country'']) = Inr components
                   \<and> l = [''Location: '' @ join_strs '', '' components]
            else l = []" by blast
    from add_distance_Inr[OF 2] obtain dl where dl: "p2 = p1 @ dl"
      "if truthy (dict_get metadata ''distance'')
            then \<exists>d km. map_of metadata ''distance'' = Some d \<and> true_div d 100000 = Inr km
                   \<and> dl = [''Distance: '' @ format_fixed 2 km @ '' km'']
            else dl = []" by blast
    from add_elevation_Inr[OF 3] obtain el where el: "p3 = p2 @ el"
      "if truthy (dict_get metadata ''elevation'')
            then \<exists>e m r. map_of metadata ''elevation'' = Some e \<and> true_div e 100 = Inr m
                   \<and> py_round m = Inr r
                   \<and> el = [''Elevation gain: '' @ show_int r @ '' m'']
            else el = []" by blast
    from d l(1) dl(1) el(1) have "description = join_strs ''; '' (l @ dl @ el)" by simp
    with l(2) dl(2) el(2) show ?thesis by blast
  qed
  show ?thesis
    using shape absent_not_truthy build_gpx_description distance_250000 elevation_12345 by blast
qed

text \<open>A city, an empty state and a country, a distance and an elevation: the empty
  state is left out of the location line, and the three lines come in the fixed
  order.\<close>

lemma located_description:
  "build_description located_metadata =
     Inr ''Location: Boulder, US; Distance: 5.00 km; Elevation gain: 50 m''"
  by (simp add: description_simps located_metadata_def py_join_def
           del: format_fixed.simps py_round.simps)

theorem description_assembly_witness:
  "build_description located_metadata =
     Inr ''Location: Boulder, US; Distance: 5.00 km; Elevation gain: 50 m''
   \<and> (\<exists>location distance elevation.
         ''Location: Boulder, US; Distance: 5.00 km; Elevation gain: 50 m'' =
            join_strs ''; '' (location @ distance @ elevation)
         \<and> location = [''Location: Boulder, US'']
         \<and> distance = [''Distance: 5.00 km'']
         \<and> elevation = [''Elevation gain: 50 m''])"
proof -
  note d = located_description
  from description_assembly[of located_metadata] d
  obtain location distance elevation where
    j: "''Location: Boulder, US; Distance: 5.00 km; Elevation gain: 50 m'' =
          join_strs ''; '' (location @ distance @ elevation)"
    and l: "if truthy (dict_get located_metadata ''geo_city'')
            then \<exists>components.
                   str_items (filter truthy [dict_get located_metadata ''geo_city'',
                                             dict_get located_metadata ''geo_state'',
                                             dict_get located_metadata ''geo_country'']) = Inr components
                   \<and> location = [''Location: '' @ join_strs '', '' components]
            else location = []"
    and k: "if truthy (dict_get located_metadata ''distance'')
            then \<exists>d km. map_of located_metadata ''distance'' = Some d \<and> true_div d 100000 = Inr km
                   \<and> distance = [''Distance: '' @ format_fixed 2 km @ '' km'']
            else distance = []"
    and e: "if truthy (dict_get located_metadata ''elevation'')
            then \<exists>e m r. map_of located_metadata ''elevation'' = Some e \<and> true_div e 100 = Inr m
                   \<and> py_round m = Inr r
                   \<and> elevation = [''Elevation gain: '' @ show_int r @ '' m'']
            else elevation = []"
    by blast
  from l have l': "location = [''Location: Boulder, US'']"
    by (auto simp: located_metadata_def dict_get_def bind_eq_Inr)
  from k have k': "distance = [''Distance: 5.00 km'']"
    by (auto simp: located_metadata_def dict_get_def div_round_examples format_fixed_examples
             simp del: format_fixed.simps)
  from e have e': "elevation = [''Elevation gain: 50 m'']"
    by (auto simp: located_metadata_def dict_get_def div_round_examples py_round_examples
                   show_int_def show_nat_digits
             simp del: py_round.simps)
  from d j l' k' e' show ?thesis by blast
qed

subsection \<open>Order of the points\<close>

lemma add_points_eq:
  "add_points segment ps = segment\<lparr>seg_points := seg_points segment @ map track_point ps\<rparr>"
  by (induction ps arbitrary: segment) simp_all

lemma build_gpx_tracks:
  assumes "build_gpx now points name metadata = Inr g"
  shows "tracks g = [\<lparr>track_name = name, segments = [\<lparr>seg_points = map track_point points\<rparr>]\<rparr>]"
  using assms by (auto simp: build_gpx_def bind_eq_Inr add_points_eq)

text \<open>What the single segment holds, position by position.\<close>

lemma build_gpx_segment:
  assumes "build_gpx now points name metadata = Inr g"
  shows "\<exists>seg. tracks g = [\<lparr>track_name = name, segments = [seg]\<rparr>]
           \<and> length (seg_points seg) = length points
           \<and> (\<forall>n. n < length points \<longrightarrow>
                 latitude (seg_points seg ! n) =
                   (if truthy (lat (points ! n)) then lat (points ! n) else JInt 0)
               \<and> longitude (seg_points seg ! n) =
                   (if truthy (lng (points ! n)) then lng (points ! n) else JInt 0)
               \<and> elevation (seg_points seg ! n) = ele (points ! n))"
proof -
  let ?seg = "\<lparr>seg_points = map track_point points\<rparr>"
  have "tracks g = [\<lparr>track_name = name, segments = [?seg]\<rparr>]"
    by (rule build_gpx_tracks[OF assms])
  moreover have "length (seg_points ?seg) = length points" by simp
  moreover have "\<forall>n. n < length points \<longrightarrow>
                 latitude (seg_points ?seg ! n) =
                   (if truthy (lat (points ! n)) then lat (points ! n) else JInt 0)
               \<and> longitude (seg_points ?seg ! n) =
                   (if truthy (lng (points ! n)) then lng (points ! n) else JInt 0)
               \<and> elevation (seg_points ?seg ! n) = ele (points ! n)"
    by (simp add: track_point_def)
  ultimately show ?thesis by blast
qed

text \<open>
  C4. After a successful decode the output has one point per entry of the point-index
  list, and for every position \<open>n\<close> the \<open>n\<close>-th point is what the \<open>n\<close>-th entry
  resolves to: the entry is dereferenced to a reference list, whose elements 0, 1
  and 2 are dereferenced to the latitude, the longitude and the elevation of that
  point. So the order of the points is the order of the index list; nothing is
  permuted, dropped or repeated. The built document has one track with one segment.
  The segment has one track point per point, in that same order: the \<open>n\<close>-th track
  point carries the latitude, the longitude and the elevation of the \<open>n\<close>-th point,
  where a latitude or longitude that is false in Python's sense is stored as the
  integer 0, as the track point constructor does.
\<close>

theorem points_keep_index_list_order:
  assumes "extract_route_info rt data = Inr (points, metadata, name)"
    and "route_data_of data = Inr route_data"
    and "point_indices_of data = Inr point_indices"
    and "py_iter point_indices = Inr idxs"
  shows "length points = length idxs
       \<and> (\<forall>n. n < length idxs \<longrightarrow>
            (\<exists>refs r0 r1 r2.
               deref route_data (idxs ! n) = Inr refs \<and>
               subscript refs (JInt 0) = Inr r0 \<and> deref route_data r0 = Inr (lat (points ! n)) \<and>
               subscript refs (JInt 1) = Inr r1 \<and> deref route_data r1 = Inr (lng (points ! n)) \<and>
               subscript refs (JInt 2) = Inr r2 \<and> deref route_data r2 = Inr (ele (points ! n))))
       \<and> (\<forall>now g. build_gpx now points name metadata = Inr g \<longrightarrow>
            (\<exists>seg. tracks g = [\<lparr>track_name = name, segments = [seg]\<rparr>]
               \<and> length (seg_points seg) = length points
               \<and> (\<forall>n. n < length points \<longrightarrow>
                     latitude (seg_points seg ! n) =
                       (if truthy (lat (points ! n)) then lat (points ! n) else JInt 0)
                   \<and> longitude (seg_points seg ! n) =
                       (if truthy (lng (points ! n)) then lng (points ! n) else JInt 0)
                   \<and> elevation (seg_points seg ! n) = ele (points ! n))))"
proof -
  from assms(1) obtain rd pis is' where "route_data_of data = Inr rd"
    and "point_indices_of data = Inr pis" and "py_iter pis = Inr is'"
    and "points_loop rd [] is' = Inr points"
    by (rule extract_route_info_Inr)
  with assms(2-4) have "points_loop route_data [] idxs = Inr points" by simp
  from points_loop_Inr[OF this]
  have all: "list_all2 (\<lambda>idx p. point_of route_data idx = Inr p) idxs points" by simp
  then have len: "length points = length idxs"
    by (simp add: list_all2_lengthD)
  from all have "\<forall>n. n < length idxs \<longrightarrow> point_of route_data (idxs ! n) = Inr (points ! n)"
    by (simp add: list_all2_conv_all_nth)
  then have nth: "\<forall>n. n < length idxs \<longrightarrow>
            (\<exists>refs r0 r1 r2.
               deref route_data (idxs ! n) = Inr refs \<and>
               subscript refs (JInt 0) = Inr r0 \<and> deref route_data r0 = Inr (lat (points ! n)) \<and>
               subscript refs (JInt 1) = Inr r1 \<and> deref route_data r1 = Inr (lng (points ! n)) \<and>
               subscript refs (JInt 2) = Inr r2 \<and> deref route_data r2 = Inr (ele (points ! n)))"
    by (simp add: point_of_Inr)
  have seg: "\<forall>now g. build_gpx now points name metadata = Inr g \<longrightarrow>
            (\<exists>seg. tracks g = [\<lparr>track_name = name, segments = [seg]\<rparr>]
               \<and> length (seg_points seg) = length points
               \<and> (\<forall>n. n < length points \<longrightarrow>
                     latitude (seg_points seg ! n) =
                       (if truthy (lat (points ! n)) then lat (points ! n) else JInt 0)
                   \<and> longitude (seg_points seg ! n) =
                       (if truthy (lng (points ! n)) then lng (points ! n) else JInt 0)
                   \<and> elevation (seg_points seg ! n) = ele (points ! n)))"
    using build_gpx_segment by blast
  from len nth seg show ?thesis by (intro conjI)
qed

text \<open>The sample store: two points, the second resolved from the entry 4 of the index
  list, and a single segment whose second track point carries the latitude 40.1, the
  longitude -105.1 and the elevation 1620 of the second point. The store with a
  latitude \<^verbatim>\<open>null\<close> and a longitude 0.0: its track point has the latitude 0, the
  longitude 0 and the elevation 1600.\<close>

lemma sample_build:
  "build_gpx now sample_points (JStr ''Test Loop'') sample_metadata =
     Inr \<lparr>creator = ''Biketerra GPX Exporter'',
          gpx_name = JStr ''Test Loop'',
          gpx_description = ''Distance: 5.00 km; Elevation gain: 50 m'',
          gpx_time = now,
          tracks = [\<lparr>track_name = JStr ''Test Loop'',
                     segments = [\<lparr>seg_points = map track_point sample_points\<rparr>]\<rparr>]\<rparr>"
  by (simp add: build_gpx_def sample_description add_points_eq)

lemma null_latitude_decode:
  "extract_route_info rt (document_of null_latitude_store) =
     Inr ([\<lparr>lat = JNull, lng = JFloat (Fin False 0 0), ele = JInt 1600\<rparr>], [],
          JStr ''Route Unknown'')"
  by (simp add: decode_simps null_latitude_store_def)

lemma null_latitude_point_indices:
  "point_indices_of (document_of null_latitude_store) = Inr (JArr [JInt 3])"
  by (simp add: decode_simps null_latitude_store_def)

lemma null_latitude_build:
  "build_gpx now [\<lparr>lat = JNull, lng = JFloat (Fin False 0 0), ele = JInt 1600\<rparr>]
       (JStr ''Route Unknown'') [] =
     Inr \<lparr>creator = ''Biketerra GPX Exporter'',
          gpx_name = JStr ''Route Unknown'',
          gpx_description = [],
          gpx_time = now,
          tracks = [\<lparr>track_name = JStr ''Route Unknown'',
                     segments = [\<lparr>seg_points =
                       [\<lparr>latitude = JInt 0, longitude = JInt 0, elevation = JInt 1600\<rparr>]\<rparr>]\<rparr>]\<rparr>"
  by (simp add: build_gpx_def description_simps track_point_def)

theorem points_keep_index_list_order_witness:
  "length sample_points = 2
   \<and> (\<exists>refs r0 r1 r2.
         deref (JArr sample_store) (JInt 4) = Inr refs \<and>
         subscript refs (JInt 0) = Inr r0 \<and> deref (JArr sample_store) r0 = Inr (lat (sample_points ! 1)) \<and>
         subscript refs (JInt 1) = Inr r1 \<and> deref (JArr sample_store) r1 = Inr (lng (sample_points ! 1)) \<and>
         subscript refs (JInt 2) = Inr r2 \<and> deref (JArr sample_store) r2 = Inr (ele (sample_points ! 1)))
   \<and> (\<exists>g seg. build_gpx 0 sample_points (JStr ''Test Loop'') sample_metadata = Inr g
          \<and> tracks g = [\<lparr>track_name = JStr ''Test Loop'', segments = [seg]\<rparr>]
          \<and> length (seg_points seg) = 2
          \<and> latitude (seg_points seg ! 1) = JFloat (Fin False 5643573283048653 (- 47))
          \<and> longitude (seg_points seg ! 1) = JFloat (Fin True 3697877506536243 (- 45))
          \<and> elevation (seg_points seg ! 1) = JInt 1620)
   \<and> (\<exists>g seg. build_gpx 0 [\<lparr>lat = JNull, lng = JFloat (Fin False 0 0), ele = JInt 1600\<rparr>]
                 (JStr ''Route Unknown'') [] = Inr g
          \<and> tracks g = [\<lparr>track_name = JStr ''Route Unknown'', segments = [seg]\<rparr>]
          \<and> length (seg_points seg) = 1
          \<and> latitude (seg_points seg ! 0) = JInt 0
          \<and> longitude (seg_points seg ! 0) = JInt 0
          \<and> elevation (seg_points seg ! 0) = JInt 1600)"
proof -
  have d: "extract_route_info sample_runtime (document_of sample_store)
        = Inr (sample_points, sample_metadata, JStr ''Test Loop'')"
    by (rule sample_decode)
  have i: "py_iter (JArr [JInt 3, JInt 4]) = Inr [JInt 3, JInt 4]" by simp
  note t = points_keep_index_list_order[OF d route_data_of_document sample_point_indices i]
  from t have 1: "length sample_points = 2" by simp
  from t have "1 < length [JInt 3, JInt 4] \<longrightarrow>
     (\<exists>refs r0 r1 r2.
         deref (JArr sample_store) ([JInt 3, JInt 4] ! 1) = Inr refs \<and>
         subscript refs (JInt 0) = Inr r0 \<and> deref (JArr sample_store) r0 = Inr (lat (sample_points ! 1)) \<and>
         subscript refs (JInt 1) = Inr r1 \<and> deref (JArr sample_store) r1 = Inr (lng (sample_points ! 1)) \<and>
         subscript refs (JInt 2) = Inr r2 \<and> deref (JArr sample_store) r2 = Inr (ele (sample_points ! 1)))"
    by blast
  then have 2: "\<exists>refs r0 r1 r2.
         deref (JArr sample_store) (JInt 4) = Inr refs \<and>
         subscript refs (JInt 0) = Inr r0 \<and> deref (JArr sample_store) r0 = Inr (lat (sample_points ! 1)) \<and>
         subscript refs (JInt 1) = Inr r1 \<and> deref (JArr sample_store) r1 = Inr (lng (sample_points ! 1)) \<and>
         subscript refs (JInt 2) = Inr r2 \<and> deref (JArr sample_store) r2 = Inr (ele (sample_points ! 1))"
    by simp
  from t sample_build[of 0] obtain seg where seg:
    "tracks \<lparr>creator = ''Biketerra GPX Exporter'',
          gpx_name = JStr ''Test Loop'',
          gpx_description = ''Distance: 5.00 km; Elevation gain: 50 m'',
          gpx_time = 0,
          tracks = [\<lparr>track_name = JStr ''Test Loop'',
                     segments = [\<lparr>seg_points = map track_point sample_points\<rparr>]\<rparr>]\<rparr>
       = [\<lparr>track_name = JStr ''Test Loop'', segments = [seg]\<rparr>]"
    "length (seg_points seg) = length sample_points"
    "\<forall>n. n < length sample_points \<longrightarrow>
         latitude (seg_points seg ! n) =
           (if truthy (lat (sample_points ! n)) then lat (sample_points ! n) else JInt 0)
       \<and> longitude (seg_points seg ! n) =
           (if truthy (lng (sample_points ! n)) then lng (sample_points ! n) else JInt 0)
       \<and> elevation (seg_points seg ! n) = ele (sample_points ! n)"
    by blast
  from seg(3) 1 have "latitude (seg_points seg ! 1) =
           (if truthy (lat (sample_points ! 1)) then lat (sample_points ! 1) else JInt 0)
       \<and> longitude (seg_points seg ! 1) =
           (if truthy (lng (sample_points ! 1)) then lng (sample_points ! 1) else JInt 0)
       \<and> elevation (seg_points seg ! 1) = ele (sample_points ! 1)"
    by simp
  then have f: "latitude (seg_points seg ! 1) = JFloat (Fin False 5643573283048653 (- 47))"
    "longitude (seg_points seg ! 1) = JFloat (Fin True 3697877506536243 (- 45))"
    "elevation (seg_points seg ! 1) = JInt 1620"
    by (simp_all add: sample_points_def)
  from seg(1,2) 1 f sample_build[of 0]
  have 3: "\<exists>g seg. build_gpx 0 sample_points (JStr ''Test Loop'') sample_metadata = Inr g
          \<and> tracks g = [\<lparr>track_name = JStr ''Test Loop'', segments = [seg]\<rparr>]
          \<and> length (seg_points seg) = 2
          \<and> latitude (seg_points seg ! 1) = JFloat (Fin False 5643573283048653 (- 47))
          \<and> longitude (seg_points seg ! 1) = JFloat (Fin True 3697877506536243 (- 45))
          \<and> elevation (seg_points seg ! 1) = JInt 1620"
    by (intro exI[of _ "\<lparr>creator = ''Biketerra GPX Exporter'',
          gpx_name = JStr ''Test Loop'',
          gpx_description = ''Distance: 5.00 km; Elevation gain: 50 m'',
          gpx_time = 0,
          tracks = [\<lparr>track_name = JStr ''Test Loop'',
                     segments = [\<lparr>seg_points = map track_point sample_points\<rparr>]\<rparr>]\<rparr>"]
        exI[of _ seg]) simp
  have i0: "py_iter (JArr [JInt 3]) = Inr [JInt 3]" by simp
  note u = points_keep_index_list_order[OF null_latitude_decode[of sample_runtime]
      route_data_of_document null_latitude_point_indices i0]
  from u null_latitude_build[of 0] obtain seg0 where seg0:
    "tracks \<lparr>creator = ''Biketerra GPX Exporter'',
          gpx_name = JStr ''Route Unknown'',
          gpx_description = [],
          gpx_time = 0,
          tracks = [\<lparr>track_name = JStr ''Route Unknown'',
                     segments = [\<lparr>seg_points =
                       [\<lparr>latitude = JInt 0, longitude = JInt 0, elevation = JInt 1600\<rparr>]\<rparr>]\<rparr>]\<rparr>
       = [\<lparr>track_name = JStr ''Route Unknown'', segments = [seg0]\<rparr>]"
    "length (seg_points seg0) = length [\<lparr>lat = JNull, lng = JFloat (Fin False 0 0), ele = JInt 1600\<rparr>]"
    "\<forall>n. n < length [\<lparr>lat = JNull, lng = JFloat (Fin False 0 0), ele = JInt 1600\<rparr>] \<longrightarrow>
         latitude (seg_points seg0 ! n) =
           (if truthy (lat ([\<lparr>lat = JNull, lng = JFloat (Fin False 0 0), ele = JInt 1600\<rparr>] ! n))
            then lat ([\<lparr>lat = JNull, lng = JFloat (Fin False 0 0), ele = JInt 1600\<rparr>] ! n) else JInt 0)
       \<and> longitude (seg_points seg0 ! n) =
           (if truthy (lng ([\<lparr>lat = JNull, lng = JFloat (Fin False 0 0), ele = JInt 1600\<rparr>] ! n))
            then lng ([\<lparr>lat = JNull, lng = JFloat (Fin False 0 0), ele = JInt 1600\<rparr>] ! n) else JInt 0)
       \<and> elevation (seg_points seg0 ! n) =
           ele ([\<lparr>lat = JNull, lng = JFloat (Fin False 0 0), ele = JInt 1600\<rparr>] ! n)"
    by blast
  from seg0(3) have f0: "latitude (seg_points seg0 ! 0) = JInt 0"
    "longitude (seg_points seg0 ! 0) = JInt 0"
    "elevation (seg_points seg0 ! 0) = JInt 1600"
    by simp_all
  from seg0(1,2) f0 null_latitude_build[of 0]
  have 4: "\<exists>g seg. build_gpx 0 [\<lparr>lat = JNull, lng = JFloat (Fin False 0 0), ele = JInt 1600\<rparr>]
                 (JStr ''Route Unknown'') [] = Inr g
          \<and> tracks g = [\<lparr>track_name = JStr ''Route Unknown'', segments = [seg]\<rparr>]
          \<and> length (seg_points seg) = 1
          \<and> latitude (seg_points seg ! 0) = JInt 0
          \<and> longitude (seg_points seg ! 0) = JInt 0
          \<and> elevation (seg_points seg ! 0) = JInt 1600"
    by (intro exI[of _ "\<lparr>creator = ''Biketerra GPX Exporter'',
          gpx_name = JStr ''Route Unknown'',
          gpx_description = [],
          gpx_time = 0,
          tracks = [\<lparr>track_name = JStr ''Route Unknown'',
                     segments = [\<lparr>seg_points =
                       [\<lparr>latitude = JInt 0, longitude = JInt 0, elevation = JInt 1600\<rparr>]\<rparr>]\<rparr>]\<rparr>"]
        exI[of _ seg0]) simp
  from 1 2 3 4 show ?thesis by (intro conjI)
qed

subsection \<open>The route name\<close>

text \<open>
  C5. The derived route name is the metadata title whenever the title is present and
  true in Python's sense, which for a string means not empty. Otherwise it is
  \<open>''Route ''\<close> followed by the text of the metadata id when an id is present, and
  \<open>''Route Unknown''\<close> when there is no id either. The name that a successful decode
  returns is this derived name.
\<close>

theorem route_name_derivation:
  "(\<forall>t. map_of metadata ''title'' = Some t \<and> truthy t \<longrightarrow> derive_name rt metadata = t)
   \<and> (\<forall>s. map_of metadata ''title'' = Some (JStr s) \<and> s \<noteq> [] \<longrightarrow> derive_name rt metadata = JStr s)
   \<and> (map_of metadata ''title'' = None \<or> (\<exists>t. map_of metadata ''title'' = Some t \<and> \<not> truthy t) \<longrightarrow>
        (\<forall>i. map_of metadata ''id'' = Some i \<longrightarrow>
              derive_name rt metadata = JStr (''Route '' @ py_str rt i))
        \<and> (map_of metadata ''id'' = None \<longrightarrow> derive_name rt metadata = JStr ''Route Unknown''))
   \<and> (\<forall>data points name. extract_route_info rt data = Inr (points, metadata, name) \<longrightarrow>
         name = derive_name rt metadata)"
proof -
  have link: "name = derive_name rt metadata"
    if "extract_route_info rt data = Inr (points, metadata, name)" for data points name
    using that by (rule extract_route_info_Inr)
  show ?thesis
    using link by (auto simp: derive_name_def dict_get_def)
qed

text \<open>The title \<open>Sunset Loop\<close> gives \<open>Sunset Loop\<close>; the id 8771 with no title gives
  \<open>Route 8771\<close>; empty metadata gives \<open>Route Unknown\<close>.\<close>

theorem route_name_derivation_witness:
  "derive_name sample_runtime [(''title'', JStr ''Sunset Loop'')] = JStr ''Sunset Loop''
   \<and> derive_name sample_runtime [(''id'', JInt 8771)] = JStr ''Route 8771''
   \<and> derive_name sample_runtime [] = JStr ''Route Unknown''
   \<and> derive_name sample_runtime sample_metadata = JStr ''Test Loop''"
proof -
  have 1: "derive_name sample_runtime [(''title'', JStr ''Sunset Loop'')] = JStr ''Sunset Loop''"
    using route_name_derivation[of "[(''title'', JStr ''Sunset Loop'')]" sample_runtime] by simp
  have 2: "derive_name sample_runtime [(''id'', JInt 8771)] = JStr ''Route 8771''"
    using route_name_derivation[of "[(''id'', JInt 8771)]" sample_runtime]
    by (simp add: show_int_def show_nat_digits)
  have 3: "derive_name sample_runtime [] = JStr ''Route Unknown''"
    using route_name_derivation[of "[]" sample_runtime] by simp
  have 4: "derive_name sample_runtime sample_metadata = JStr ''Test Loop''"
    using route_name_derivation[of sample_metadata sample_runtime] sample_decode[of sample_runtime]
    by metis
  from 1 2 3 4 show ?thesis by simp
qed

subsection \<open>Exceptions of the track builder\<close>

text \<open>The exceptions the track builder can raise; none of them is \<^verbatim>\<open>SystemExit\<close>.\<close>

lemma true_div_error: "true_div v d = Inl e \<Longrightarrow> e = TypeError \<or> e = OverflowError"
  by (cases "(v, d)" rule: true_div.cases) (auto split: option.splits)

lemma py_round_error: "py_round x = Inl e \<Longrightarrow> e = OverflowError \<or> e = ValueError"
  by (cases x) (auto simp: Let_def)

lemma str_items_error: "str_items vs = Inl e \<Longrightarrow> e = TypeError"
  by (induction vs rule: str_items.induct) (auto simp: bind_eq_Inl)

lemma build_gpx_error:
  assumes "build_gpx now points name md = Inl e"
  shows "e = TypeError \<or> e = KeyError \<or> e = OverflowError \<or> e = ValueError"
  using assms
  by (auto simp: build_gpx_def build_description_def add_location_def add_distance_def
        add_elevation_def py_join_def dict_item_def bind_eq_Inl
      split: if_splits option.splits
      dest!: true_div_error py_round_error str_items_error)

subsection \<open>The program, stage by stage\<close>

text \<open>What \<open>main\<close> leaves behind when the fetch fails, when the decode fails, when the
  route has no points, and when the track builder fails.\<close>

lemma main_fetch_fails:
  assumes "fetch_route_data env route_id = Inl e"
  shows "(\<forall>n. e \<noteq> SystemExitWith n) \<Longrightarrow> exit_status (fst (main env route_id output w)) = 1"
    and "files (snd (main env route_id output w)) = files w"
    and "calls (snd (main env route_id output w)) = calls w @ [FetchRouteData]"
  using assms
  by (cases e; simp add: main_def main_try_def Let_def called_def print_out_def print_err_def)+

lemma main_decode_fails:
  assumes "fetch_route_data env route_id = Inr data"
    and "extract_route_info (runtime env) data = Inl e"
  shows "exit_status (fst (main env route_id output w)) = 1"
    and "files (snd (main env route_id output w)) = files w"
    and "calls (snd (main env route_id output w)) = calls w @ [FetchRouteData, ExtractRouteInfo]"
  using assms extract_route_info_error[OF assms(2)]
  by (cases e; simp add: main_def main_try_def Let_def called_def print_out_def print_err_def)+

lemma main_no_points:
  assumes "fetch_route_data env route_id = Inr data"
    and "extract_route_info (runtime env) data = Inr ([], metadata, name)"
  shows "main env route_id output w =
           (Inl (SystemExitWith 1),
            w\<lparr>out := out w @ [''Fetching route '' @ route_id @ ''...''],
              err := err w @ [''Error: No track points found in route data''],
              calls := calls w @ [FetchRouteData, ExtractRouteInfo]\<rparr>)"
  using assms
  by (simp add: main_def main_try_def Let_def called_def print_out_def print_err_def)

lemma main_build_fails:
  assumes "fetch_route_data env route_id = Inr data"
    and "extract_route_info (runtime env) data = Inr (points, metadata, name)"
    and "points \<noteq> []"
    and "build_gpx (clock env) points name metadata = Inl e"
  shows "exit_status (fst (main env route_id output w)) = 1"
    and "files (snd (main env route_id output w)) = files w"
    and "calls (snd (main env route_id output w)) = calls w @ [FetchRouteData, ExtractRouteInfo, BuildGpx]"
  using assms build_gpx_error[OF assms(4)]
  by (auto simp add: main_def main_try_def Let_def called_def print_out_def print_err_def)


text \<open>The output file is opened, and the files change, only after all four stages
  have succeeded.\<close>

lemma main_touches_file:
  assumes "files (snd (main env route_id output w)) \<noteq> files w
         \<or> (\<exists>p. OpenForWriting p \<in> set (calls (snd (main env route_id output w)))
                \<and> OpenForWriting p \<notin> set (calls w))"
  shows "\<exists>data points metadata name g.
           fetch_route_data env route_id = Inr data
         \<and> extract_route_info (runtime env) data = Inr (points, metadata, name)
         \<and> points \<noteq> []
         \<and> build_gpx (clock env) points name metadata = Inr g"
proof (cases "fetch_route_data env route_id")
  case (Inl e)
  from main_fetch_fails(2,3)[OF Inl, of _ w] assms show ?thesis by auto
next
  case fetched: (Inr data)
  show ?thesis
  proof (cases "extract_route_info (runtime env) data")
    case (Inl e)
    from main_decode_fails(2,3)[OF fetched Inl, of _ w] assms show ?thesis by auto
  next
    case (Inr r)
    obtain points metadata name where r: "r = (points, metadata, name)" by (cases r)
    note decoded = Inr[unfolded r]
    show ?thesis
    proof (cases "points = []")
      case True
      from main_no_points[OF fetched decoded[unfolded True], of _ w] assms
      show ?thesis by auto
    next
      case nonempty: False
      show ?thesis
      proof (cases "build_gpx (clock env) points name metadata")
        case (Inl e)
        from main_build_fails(2,3)[OF fetched decoded nonempty Inl, of _ w] assms
        show ?thesis by auto
      next
        case (Inr g)
        with fetched decoded nonempty show ?thesis by blast
      qed
    qed
  qed
qed

text \<open>The report of an empty route is printed in no other case.\<close>

lemma main_reports_no_points:
  assumes "err (snd (main env route_id output w)) = err w @ [''Error: No track points found in route data'']"
  shows "\<exists>data metadata name.
           fetch_route_data env route_id = Inr data
         \<and> extract_route_info (runtime env) data = Inr ([], metadata, name)"
  using assms
  by (auto simp: main_def main_try_def Let_def called_def print_out_def print_err_def
        print_distance_def print_elevation_def
      split: sum.splits prod.splits if_splits)


text \<open>
  C7. If the fetch succeeds and the decode succeeds with zero points, \<open>main\<close> prints
  the line \<open>Error: No track points found in route data\<close> to standard error and
  leaves through \<^verbatim>\<open>sys.exit(1)\<close>, so the exit status is 1. No file is written: the
  files are as before. The only calls made are the fetch and the decode; the track
  builder is not called, nor is the output file opened. The report is distinct: in
  no other run does \<open>main\<close> print exactly this line.
\<close>

theorem empty_route_is_reported:
  assumes "fetch_route_data env route_id = Inr data"
    and "extract_route_info (runtime env) data = Inr ([], metadata, name)"
  shows "fst (main env route_id output w) = Inl (SystemExitWith 1)
       \<and> exit_status (fst (main env route_id output w)) = 1
       \<and> err (snd (main env route_id output w)) =
            err w @ [''Error: No track points found in route data'']
       \<and> files (snd (main env route_id output w)) = files w
       \<and> calls (snd (main env route_id output w)) = calls w @ [FetchRouteData, ExtractRouteInfo]
       \<and> (\<forall>env' route_id' output' w'.
            err (snd (main env' route_id' output' w')) =
              err w' @ [''Error: No track points found in route data'']
            \<longrightarrow> (\<exists>data' metadata' name'.
                   fetch_route_data env' route_id' = Inr data'
                 \<and> extract_route_info (runtime env') data' = Inr ([], metadata', name')))"
  using main_no_points[OF assms, of "output" w] main_reports_no_points
  by simp

text \<open>The store of \<open>zero_store\<close> decodes to no points.\<close>

lemma fetch_sample: "status < 400 \<Longrightarrow> fetch_route_data (sample_env status doc) route_id = Inr doc"
  by (simp add: fetch_route_data_def sample_env_def)

lemma fetch_sample_404: "fetch_route_data (sample_env 404 doc) route_id = Inl HTTPError"
  by (simp add: fetch_route_data_def sample_env_def)

lemma runtime_sample_env: "runtime (sample_env status doc) = sample_runtime"
  by (simp add: sample_env_def)

theorem empty_route_is_reported_witness:
  "fst (main (sample_env 200 (document_of zero_store)) ''8771'' None empty_world) = Inl (SystemExitWith 1)
   \<and> err (snd (main (sample_env 200 (document_of zero_store)) ''8771'' None empty_world)) =
        [''Error: No track points found in route data'']
   \<and> files (snd (main (sample_env 200 (document_of zero_store)) ''8771'' None empty_world)) ''8771.gpx'' = None
   \<and> calls (snd (main (sample_env 200 (document_of zero_store)) ''8771'' None empty_world)) =
        [FetchRouteData, ExtractRouteInfo]"
proof -
  have f: "fetch_route_data (sample_env 200 (document_of zero_store)) ''8771'' = Inr (document_of zero_store)"
    by (simp add: fetch_sample)
  have d: "extract_route_info (runtime (sample_env 200 (document_of zero_store))) (document_of zero_store)
             = Inr ([], [], JStr ''Route Unknown'')"
    by (simp add: runtime_sample_env decode_simps zero_store_def)
  from empty_route_is_reported[OF f d, of None empty_world]
  show ?thesis by (simp add: empty_world_def)
qed

text \<open>
  C10. Whenever the fetch fails (with an HTTP error, a network error or any other
  exception), or the decode fails with a structure error, or the route has no points,
  or the track builder fails, the exit status is 1, the files are exactly as before
  the run, and the calls made end before the output file is opened. Conversely the
  files change, or the output file is opened, only if the fetch, the full decode, the
  check for points and the document build have all succeeded.
\<close>

theorem failure_leaves_no_file:
  "(\<forall>e. fetch_route_data env route_id = Inl e \<and> (\<forall>n. e \<noteq> SystemExitWith n) \<longrightarrow>
       exit_status (fst (main env route_id output w)) = 1
     \<and> files (snd (main env route_id output w)) = files w
     \<and> calls (snd (main env route_id output w)) = calls w @ [FetchRouteData])
   \<and> (\<forall>data e. fetch_route_data env route_id = Inr data
          \<and> extract_route_info (runtime env) data = Inl e \<longrightarrow>
       exit_status (fst (main env route_id output w)) = 1
     \<and> files (snd (main env route_id output w)) = files w
     \<and> calls (snd (main env route_id output w)) = calls w @ [FetchRouteData, ExtractRouteInfo])
   \<and> (\<forall>data metadata name. fetch_route_data env route_id = Inr data
          \<and> extract_route_info (runtime env) data = Inr ([], metadata, name) \<longrightarrow>
       exit_status (fst (main env route_id output w)) = 1
     \<and> files (snd (main env route_id output w)) = files w
     \<and> calls (snd (main env route_id output w)) = calls w @ [FetchRouteData, ExtractRouteInfo])
   \<and> (\<forall>data points metadata name e. fetch_route_data env route_id = Inr data
          \<and> extract_route_info (runtime env) data = Inr (points, metadata, name)
          \<and> points \<noteq> []
          \<and> build_gpx (clock env) points name metadata = Inl e \<longrightarrow>
       exit_status (fst (main env route_id output w)) = 1
     \<and> files (snd (main env route_id output w)) = files w
     \<and> calls (snd (main env route_id output w)) =
          calls w @ [FetchRouteData, ExtractRouteInfo, BuildGpx])
   \<and> (files (snd (main env route_id output w)) \<noteq> files w
        \<or> (\<exists>p. OpenForWriting p \<in> set (calls (snd (main env route_id output w)))
               \<and> OpenForWriting p \<notin> set (calls w)) \<longrightarrow>
       (\<exists>data points metadata name g.
           fetch_route_data env route_id = Inr data
         \<and> extract_route_info (runtime env) data = Inr (points, metadata, name)
         \<and> points \<noteq> []
         \<and> build_gpx (clock env) points name metadata = Inr g))"
proof -
  have 1: "exit_status (fst (main env route_id output w)) = 1
     \<and> files (snd (main env route_id output w)) = files w
     \<and> calls (snd (main env route_id output w)) = calls w @ [FetchRouteData]"
    if "fetch_route_data env route_id = Inl e" "\<forall>n. e \<noteq> SystemExitWith n" for e
    using main_fetch_fails[OF that(1)] that(2) by simp
  have 2: "exit_status (fst (main env route_id output w)) = 1
     \<and> files (snd (main env route_id output w)) = files w
     \<and> calls (snd (main env route_id output w)) = calls w @ [FetchRouteData, ExtractRouteInfo]"
    if "fetch_route_data env route_id = Inr data" "extract_route_info (runtime env) data = Inl e"
    for data e
    using main_decode_fails[OF that] by simp
  have 3: "exit_status (fst (main env route_id output w)) = 1
     \<and> files (snd (main env route_id output w)) = files w
     \<and> calls (snd (main env route_id output w)) = calls w @ [FetchRouteData, ExtractRouteInfo]"
    if "fetch_route_data env route_id = Inr data"
      "extract_route_info (runtime env) data = Inr ([], metadata, name)"
    for data metadata name
    using main_no_points[OF that] by simp
  have 4: "exit_status (fst (main env route_id output w)) = 1
     \<and> files (snd (main env route_id output w)) = files w
     \<and> calls (snd (main env route_id output w)) =
          calls w @ [FetchRouteData, ExtractRouteInfo, BuildGpx]"
    if "fetch_route_data env route_id = Inr data"
      "extract_route_info (runtime env) data = Inr (points, metadata, name)"
      "points \<noteq> []"
      "build_gpx (clock env) points name metadata = Inl e"
    for data points metadata name e
    using main_build_fails[OF that] by simp
  note 5 = main_touches_file[of env route_id _ w]
  show ?thesis
    apply (intro conjI allI impI)
    subgoal using 1 by blast
    subgoal using 1 by blast
    subgoal using 1 by blast
    subgoal using 2 by blast
    subgoal using 2 by blast
    subgoal using 2 by blast
    subgoal using 3 by blast
    subgoal using 3 by blast
    subgoal using 3 by blast
    subgoal using 4 by blast
    subgoal using 4 by blast
    subgoal using 4 by blast
    subgoal using 5 by blast
    done
qed


text \<open>A run on the sample store writes the file; a run answered with status 404 and
  a run on a store with a short point record exit with status 1 and write nothing.\<close>

lemma format_fixed_0_example: "format_fixed 0 (Fin False 7036874417766400 (- 47)) = ''50''"
  by (simp add: number_simps show_nat_digits)

lemma sample_env_fields:
  "clock (sample_env status doc) = 0"
  "can_open (sample_env status doc) p"
  "to_xml (sample_env status doc) g = Inr ''<gpx/>''"
  by (simp_all add: sample_env_def)

lemma sample_run:
  "main (sample_env 200 (document_of sample_store)) ''8771'' None empty_world =
     (Inr (),
      \<lparr>files = (\<lambda>p. None)(''8771.gpx'' \<mapsto> ''<gpx/>''),
       out = [''Fetching route 8771...'', ''Wrote 8771.gpx (2 points)'', ''Route: Test Loop'',
              ''Distance: 5.00 km'', ''Elevation: 50 m''],
       err = [],
       calls = [FetchRouteData, ExtractRouteInfo, BuildGpx, OpenForWriting ''8771.gpx'',
                ToXml, WriteFile]\<rparr>)"
proof -
  have p: "sample_points \<noteq> []" "length sample_points = 2"
    by (simp_all add: sample_points_def)
  have pd: "print_distance sample_metadata w = (Inr (), print_out ''Distance: 5.00 km'' w)" for w
    by (simp add: print_distance_def sample_metadata_def dict_get_def dict_item_def
          div_round_examples format_fixed_examples del: format_fixed.simps)
  have pe: "print_elevation sample_metadata w = (Inr (), print_out ''Elevation: 50 m'' w)" for w
    by (simp add: print_elevation_def sample_metadata_def dict_get_def dict_item_def
          div_round_examples format_fixed_0_example del: format_fixed.simps)
  show ?thesis
    by (simp add: main_def main_try_def Let_def fetch_sample runtime_sample_env sample_decode
          sample_build p pd pe sample_env_fields show_nat_digits
          called_def print_out_def empty_world_def)
qed

theorem failure_leaves_no_file_witness:
  "exit_status (fst (main (sample_env 404 JNull) ''8771'' None empty_world)) = 1
   \<and> files (snd (main (sample_env 404 JNull) ''8771'' None empty_world)) = files empty_world
   \<and> exit_status (fst (main (sample_env 200 (document_of short_record_store)) ''8771'' None empty_world)) = 1
   \<and> files (snd (main (sample_env 200 (document_of short_record_store)) ''8771'' None empty_world))
        = files empty_world
   \<and> files (snd (main (sample_env 200 (document_of sample_store)) ''8771'' None empty_world)) ''8771.gpx''
        = Some ''<gpx/>''
   \<and> (\<exists>data points metadata name g.
         fetch_route_data (sample_env 200 (document_of sample_store)) ''8771'' = Inr data
       \<and> extract_route_info (runtime (sample_env 200 (document_of sample_store))) data
            = Inr (points, metadata, name)
       \<and> points \<noteq> []
       \<and> build_gpx (clock (sample_env 200 (document_of sample_store))) points name metadata = Inr g)"
proof -
  have 1: "exit_status (fst (main (sample_env 404 JNull) ''8771'' None empty_world)) = 1
     \<and> files (snd (main (sample_env 404 JNull) ''8771'' None empty_world)) = files empty_world"
    using failure_leaves_no_file[of "sample_env 404 JNull" "''8771''" None empty_world]
      fetch_sample_404[of JNull "''8771''"]
    by simp
  have d: "extract_route_info (runtime (sample_env 200 (document_of short_record_store)))
             (document_of short_record_store) = Inl IndexError"
    by (simp add: runtime_sample_env decode_simps short_record_store_def)
  have 2: "exit_status (fst (main (sample_env 200 (document_of short_record_store)) ''8771'' None empty_world)) = 1
     \<and> files (snd (main (sample_env 200 (document_of short_record_store)) ''8771'' None empty_world))
        = files empty_world"
    using failure_leaves_no_file[of "sample_env 200 (document_of short_record_store)" "''8771''" None empty_world]
      fetch_sample[of 200 "document_of short_record_store" "''8771''"] d
    by simp
  have 3: "files (snd (main (sample_env 200 (document_of sample_store)) ''8771'' None empty_world)) ''8771.gpx''
        = Some ''<gpx/>''"
    by (simp add: sample_run)
  then have "files (snd (main (sample_env 200 (document_of sample_store)) ''8771'' None empty_world))
      \<noteq> files empty_world"
    by (auto simp: empty_world_def fun_eq_iff)
  with failure_leaves_no_file[of "sample_env 200 (document_of sample_store)" "''8771''" None empty_world]
  have 4: "\<exists>data points metadata name g.
         fetch_route_data (sample_env 200 (document_of sample_store)) ''8771'' = Inr data
       \<and> extract_route_info (runtime (sample_env 200 (document_of sample_store))) data
            = Inr (points, metadata, name)
       \<and> points \<noteq> []
       \<and> build_gpx (clock (sample_env 200 (document_of sample_store))) points name metadata = Inr g"
    by blast
  from 1 2 3 4 show ?thesis by blast
qed

section \<open>The decode on the heap and the decode on the tree\<close>

subsection \<open>Reading the heap and reading the tree\<close>

lemma represents_VRef:
  "represents h (VRef a) j \<Longrightarrow> a < length h"
  by (cases j) auto

text \<open>New objects behind the old ones do not change what a value represents.\<close>

lemma represents_append:
  "represents h v j \<Longrightarrow> represents (h @ hs) v j"
proof (induction h v j rule: represents.induct)
  case (6 h v js)
  from "6.prems" obtain a vs where v: "v = VRef a" "a < length h" "h ! a = OList vs"
    and all: "list_all2 (represents h) vs js"
    by (auto split: val.splits obj.splits)
  have "list_all2 (represents (h @ hs)) vs js"
    using all by (rule list.rel_mono_strong) (rule "6.IH"[OF v(1,3)])
  with v show ?case by (simp add: nth_append)
next
  case (7 h v kjs)
  from "7.prems" obtain a kvs where v: "v = VRef a" "a < length h" "h ! a = ODict kvs"
    and all: "list_all2 (\<lambda>kv kj. fst kv = fst kj \<and> represents h (snd kv) (snd kj)) kvs kjs"
    by (auto split: val.splits obj.splits)
  have "list_all2 (\<lambda>kv kj. fst kv = fst kj \<and> represents (h @ hs) (snd kv) (snd kj)) kvs kjs"
    using all by (rule list.rel_mono_strong) (use "7.IH"[OF v(1,3)] in auto)
  with v show ?case by (simp add: nth_append)
qed simp_all

lemma as_index_sim: "represents h k kj \<Longrightarrow> as_index_h k = as_index kj"
  by (cases kj) (auto split: val.splits)

lemma is_pointer_sim: "represents h v j \<Longrightarrow> is_pointer_h v = is_pointer j"
  by (cases j) (auto split: val.splits)

lemma truthy_sim: "represents h v j \<Longrightarrow> truthy_h h v = truthy j"
  by (cases j) (auto split: val.splits obj.splits)

lemma seq_item_sim:
  "list_all2 R xs ys \<Longrightarrow> rel_sum (=) R (seq_item xs i) (seq_item ys i)"
  by (auto simp: seq_item_def list_all2_conv_all_nth)

lemma map_of_sim:
  "list_all2 (\<lambda>kv kj. fst kv = fst kj \<and> R (snd kv) (snd kj)) kvs kjs
     \<Longrightarrow> rel_option R (map_of kvs s) (map_of kjs s)"
  by (induction kvs kjs rule: list_all2_induct) auto

lemma subscript_sim:
  assumes "represents h v j" and "represents h k kj"
  shows "rel_sum (=) (represents h) (subscript_h h v k) (subscript j kj)"
proof (cases j)
  case (JArr js)
  with assms(1) obtain a vs where v: "v = VRef a" "a < length h" "h ! a = OList vs"
    and all: "list_all2 (represents h) vs js"
    by (auto split: val.splits obj.splits)
  show ?thesis
    using v JArr seq_item_sim[OF all] as_index_sim[OF assms(2)]
    by (auto split: option.splits)
next
  case (JStr s)
  with assms(1) have v: "v = VStr s" by simp
  have "rel_sum (=) (=) (seq_item s i) (seq_item s i)" for i
    by (cases "seq_item s i") auto
  then show ?thesis
    using v JStr as_index_sim[OF assms(2)]
    by (cases "as_index kj") (auto simp: bind_def split: sum.splits)
next
  case (JObj kjs)
  with assms(1) obtain a kvs where v: "v = VRef a" "a < length h" "h ! a = ODict kvs"
    and all: "list_all2 (\<lambda>kv kj. fst kv = fst kj \<and> represents h (snd kv) (snd kj)) kvs kjs"
    by (auto split: val.splits obj.splits)
  show ?thesis
  proof (cases kj)
    case (JStr s)
    with assms(2) have k: "k = VStr s" by simp
    from map_of_sim[OF all, of s] show ?thesis
      using v JObj JStr k by (cases "map_of kjs s") (auto simp: option_rel_Some2)
  qed (use assms(2) v JObj in \<open>auto split: val.splits\<close>)
qed (use assms(1) in \<open>auto split: val.splits\<close>)

lemma deref_sim:
  assumes "represents h v j" and "represents h k kj"
  shows "rel_sum (=) (represents h) (deref_h h v k) (deref j kj)"
  using subscript_sim[OF assms] by (simp add: deref_h_def deref_def)

lemma represents_JStr_iff: "represents h (VStr f) j \<longleftrightarrow> j = JStr f"
  by (cases j) auto

lemma member_sim:
  "list_all2 (represents h) vs js \<Longrightarrow> VStr f \<in> set vs \<longleftrightarrow> JStr f \<in> set js"
  by (induction vs js rule: list_all2_induct) (auto simp: represents_JStr_iff)

lemma py_in_sim:
  assumes "represents h v j"
  shows "py_in_h h f v = py_in f j"
proof (cases j)
  case (JArr js)
  with assms show ?thesis
    by (auto split: val.splits obj.splits dest: member_sim)
next
  case (JObj kjs)
  with assms obtain a kvs where v: "v = VRef a" "a < length h" "h ! a = ODict kvs"
    and all: "list_all2 (\<lambda>kv kj. fst kv = fst kj \<and> represents h (snd kv) (snd kj)) kvs kjs"
    by (auto split: val.splits obj.splits)
  from map_of_sim[OF all, of f] show ?thesis
    using v JObj by (cases "map_of kjs f") (auto simp: option_rel_Some2)
qed (use assms in \<open>auto split: val.splits\<close>)

lemma py_iter_sim:
  assumes "represents h v j"
  shows "rel_sum (=) (list_all2 (represents h)) (py_iter_h h v) (py_iter j)"
proof (cases j)
  case (JStr s)
  with assms show ?thesis by (auto simp: list_all2_conv_all_nth)
next
  case (JObj kjs)
  with assms obtain a kvs where v: "v = VRef a" "a < length h" "h ! a = ODict kvs"
    and all: "list_all2 (\<lambda>kv kj. fst kv = fst kj \<and> represents h (snd kv) (snd kj)) kvs kjs"
    by (auto split: val.splits obj.splits)
  from all have "list_all2 (represents h) (map (\<lambda>kv. VStr (fst kv)) kvs) (map (\<lambda>kv. JStr (fst kv)) kjs)"
    by (induction kvs kjs rule: list_all2_induct) auto
  with v JObj show ?thesis by simp
qed (use assms in \<open>auto split: val.splits obj.splits\<close>)

text \<open>A value of the old heap reads the same with new objects behind it.\<close>

lemma subscript_h_append:
  "represents h v j \<Longrightarrow> subscript_h (h @ hs) v k = subscript_h h v k"
  by (cases v) (auto simp: nth_append dest: represents_VRef)

lemma deref_h_append:
  "represents h v j \<Longrightarrow> deref_h (h @ hs) v k = deref_h h v k"
  by (simp add: deref_h_def subscript_h_append)

lemma py_in_h_append:
  "represents h v j \<Longrightarrow> py_in_h (h @ hs) f v = py_in_h h f v"
  by (cases v) (auto simp: nth_append dest: represents_VRef)

lemma py_iter_h_append:
  "represents h v j \<Longrightarrow> py_iter_h (h @ hs) v = py_iter_h h v"
  by (cases v) (auto simp: nth_append dest: represents_VRef)

subsection \<open>The loops on the heap follow the loops on the tree\<close>

lemma bind_sim:
  assumes "rel_sum (=) R m m'"
    and "\<And>x y. R x y \<Longrightarrow> rel_sum (=) S (f x) (g y)"
  shows "rel_sum (=) S (bind m f) (bind m' g)"
  using assms by (cases m; cases m') auto

lemma heap_split: "take (length h0) H = h0 \<Longrightarrow> H = h0 @ drop (length h0) H"
  by (metis append_take_drop_id)

lemma subscript_sim_later:
  assumes "take (length h0) H = h0" and "represents h0 v j" and "represents h0 k kj"
  shows "rel_sum (=) (represents h0) (subscript_h H v k) (subscript j kj)"
  using subscript_sim[OF assms(2,3)] subscript_h_append[OF assms(2), of "drop (length h0) H" k]
    heap_split[OF assms(1)]
  by simp

lemma deref_sim_later:
  assumes "take (length h0) H = h0" and "represents h0 v j" and "represents h0 k kj"
  shows "rel_sum (=) (represents h0) (deref_h H v k) (deref j kj)"
  using subscript_sim_later[OF assms] by (simp add: deref_h_def deref_def)

lemma py_in_sim_later:
  assumes "take (length h0) H = h0" and "represents h0 v j"
  shows "py_in_h H f v = py_in f j"
  using py_in_sim[OF assms(2)] py_in_h_append[OF assms(2), of "drop (length h0) H" f]
    heap_split[OF assms(1)]
  by simp

lemma py_iter_sim_later:
  assumes "take (length h0) H = h0" and "represents h0 v j"
  shows "rel_sum (=) (list_all2 (represents h0)) (py_iter_h H v) (py_iter j)"
  using py_iter_sim[OF assms(2)] py_iter_h_append[OF assms(2), of "drop (length h0) H"]
    heap_split[OF assms(1)]
  by simp

lemma dict_set_sim:
  assumes "entries_match h0 kvs kjs" and "represents h0 v j"
  shows "entries_match h0 (dict_set kvs f v) (dict_set kjs f j)"
  using assms unfolding entries_match_def
  by (induction kvs kjs rule: list_all2_induct) auto

lemma meta_field_sim:
  assumes inv: "meta_inv h0 m H md"
    and rd: "represents h0 rd rdj" and st: "represents h0 st stj"
  shows "case meta_field rdj stj md f of
           Inl e \<Rightarrow> meta_field_h rd st m f H = (Inl e, H)
         | Inr md' \<Rightarrow>
             (\<exists>H'. meta_field_h rd st m f H = (Inr (), H') \<and> meta_inv h0 m H' md'
                  \<and> length H' = length H)"
proof -
  from inv have frame: "take (length h0) H = h0" and m: "length h0 \<le> m" "m < length H"
    by (simp_all add: meta_inv_def)
  from inv obtain kvs where kvs: "H ! m = ODict kvs" "entries_match h0 kvs md"
    by (auto simp: meta_inv_def split: obj.splits)
  note in_eq = py_in_sim_later[OF frame st, of f]
  show ?thesis
  proof (cases "py_in f stj")
    case (Inl e)
    with in_eq show ?thesis by (simp add: meta_field_def meta_field_h_def)
  next
    case present: (Inr b)
    show ?thesis
    proof (cases b)
      case False
      with present in_eq inv show ?thesis by (simp add: meta_field_def meta_field_h_def)
    next
      case True
      have key: "represents h0 (VStr f) (JStr f)" by simp
      note sub = subscript_sim_later[OF frame st key]
      show ?thesis
      proof (cases "subscript stj (JStr f)")
        case (Inl e)
        with sub have "subscript_h H st (VStr f) = Inl e"
          by (cases "subscript_h H st (VStr f)") auto
        with Inl present True in_eq show ?thesis
          by (simp add: meta_field_def meta_field_h_def)
      next
        case (Inr idxj)
        with sub obtain idx where idx: "subscript_h H st (VStr f) = Inr idx" "represents h0 idx idxj"
          by (cases "subscript_h H st (VStr f)") auto
        note ptr = is_pointer_sim[OF idx(2)]
        show ?thesis
        proof (cases "is_pointer idxj")
          case False
          with Inr present True in_eq idx ptr inv show ?thesis
            by (simp add: meta_field_def meta_field_h_def)
        next
          case pointer: True
          note dr = deref_sim_later[OF frame rd idx(2)]
          show ?thesis
          proof (cases "deref rdj idxj")
            case (Inl e)
            with dr have "deref_h H rd idx = Inl e"
              by (cases "deref_h H rd idx") auto
            with Inl Inr present True in_eq idx ptr pointer show ?thesis
              by (simp add: meta_field_def meta_field_h_def)
          next
            case resolved: (Inr vj)
            with dr obtain v where v: "deref_h H rd idx = Inr v" "represents h0 v vj"
              by (cases "deref_h H rd idx") auto
            let ?H' = "setitem_h m f v H"
            have H': "?H' = H[m := ODict (dict_set kvs f v)]"
              using kvs(1) by (simp add: setitem_h_def)
            have "meta_inv h0 m ?H' (dict_set md f vj)"
              using frame m dict_set_sim[OF kvs(2) v(2), of f]
              by (simp add: meta_inv_def H')
            moreover have "length ?H' = length H" by (simp add: H')
            moreover have "meta_field_h rd st m f H = (Inr (), ?H')"
              using present True in_eq idx ptr pointer v
              by (simp add: meta_field_h_def)
            moreover have "meta_field rdj stj md f = Inr (dict_set md f vj)"
              using present True Inr pointer resolved by (simp add: meta_field_def)
            ultimately show ?thesis by simp
          qed
        qed
      qed
    qed
  qed
qed

lemma meta_loop_sim:
  assumes "meta_inv h0 m H md"
    and "represents h0 rd rdj" and "represents h0 st stj"
  shows "case meta_loop rdj stj md fs of
           Inl e \<Rightarrow> (\<exists>H'. meta_loop_h rd st m fs H = (Inl e, H') \<and> take (length h0) H' = h0)
         | Inr md' \<Rightarrow>
             (\<exists>H'. meta_loop_h rd st m fs H = (Inr (), H') \<and> meta_inv h0 m H' md'
                  \<and> length H' = length H)"
  using assms(1)
proof (induction fs arbitrary: H md)
  case Nil
  then show ?case by simp
next
  case (Cons f fs)
  note step = meta_field_sim[OF Cons.prems assms(2,3), of f]
  show ?case
  proof (cases "meta_field rdj stj md f")
    case (Inl e)
    with step Cons.prems show ?thesis by (simp add: meta_inv_def)
  next
    case (Inr md1)
    with step obtain H1 where H1: "meta_field_h rd st m f H = (Inr (), H1)"
      "meta_inv h0 m H1 md1" "length H1 = length H" by auto
    from Cons.IH[OF H1(2)] H1(1,3) Inr show ?thesis
      by (auto split: sum.splits)
  qed
qed

lemma point_chain_sim:
  assumes frame: "take (length h0) H = h0"
    and rd: "represents h0 rd rdj" and idx: "represents h0 idx idxj"
  shows "rel_sum (=)
           (\<lambda>t pt. represents h0 (fst t) (lat pt) \<and> represents h0 (fst (snd t)) (lng pt)
                    \<and> represents h0 (snd (snd t)) (ele pt))
           (bind (deref_h H rd idx) (\<lambda>point_refs.
            bind (subscript_h H point_refs (VInt 0)) (\<lambda>r0.
            bind (deref_h H rd r0) (\<lambda>lat_v.
            bind (subscript_h H point_refs (VInt 1)) (\<lambda>r1.
            bind (deref_h H rd r1) (\<lambda>lng_v.
            bind (subscript_h H point_refs (VInt 2)) (\<lambda>r2.
            bind (deref_h H rd r2) (\<lambda>ele_v.
            Inr (lat_v, lng_v, ele_v)))))))))
           (point_of rdj idxj)"
  unfolding point_of_def
  by (intro bind_sim[where R = "represents h0"] deref_sim_later[OF frame]
        subscript_sim_later[OF frame] rd idx)
     (simp_all)

lemma point_of_sim:
  assumes inv: "points_inv h0 p H pts"
    and rd: "represents h0 rd rdj" and idx: "represents h0 idx idxj"
  shows "case point_of rdj idxj of
           Inl e \<Rightarrow> point_of_h rd p idx H = (Inl e, H)
         | Inr pt \<Rightarrow>
             (\<exists>H'. point_of_h rd p idx H = (Inr (), H') \<and> points_inv h0 p H' (pts @ [pt])
                  \<and> length H \<le> length H' \<and> (\<forall>a<length H. a \<noteq> p \<longrightarrow> H' ! a = H ! a))"
proof -
  from inv have frame: "take (length h0) H = h0" and p: "length h0 \<le> p" "p < length H"
    by (simp_all add: points_inv_def)
  from inv obtain pvs where pvs: "H ! p = OList pvs" "list_all2 (point_at h0 p H) pvs pts"
    by (auto simp: points_inv_def split: obj.splits)
  let ?chain = "bind (deref_h H rd idx) (\<lambda>point_refs.
            bind (subscript_h H point_refs (VInt 0)) (\<lambda>r0.
            bind (deref_h H rd r0) (\<lambda>lat_v.
            bind (subscript_h H point_refs (VInt 1)) (\<lambda>r1.
            bind (deref_h H rd r1) (\<lambda>lng_v.
            bind (subscript_h H point_refs (VInt 2)) (\<lambda>r2.
            bind (deref_h H rd r2) (\<lambda>ele_v.
            Inr (lat_v, lng_v, ele_v))))))))"
  note sim = point_chain_sim[OF frame rd idx]
  show ?thesis
  proof (cases "point_of rdj idxj")
    case (Inl e)
    with sim have "?chain = Inl e" by (cases ?chain) auto
    with Inl show ?thesis by (simp add: point_of_h_def)
  next
    case (Inr pt)
    with sim obtain v1 v2 v3 where c: "?chain = Inr (v1, v2, v3)"
      and v: "represents h0 v1 (lat pt)" "represents h0 v2 (lng pt)" "represents h0 v3 (ele pt)"
      by (cases ?chain) auto
    let ?d = "ODict [(''lat'', v1), (''lng'', v2), (''ele'', v3)]"
    let ?H' = "(H @ [?d])[p := OList (pvs @ [VRef (length H)])]"
    have run: "point_of_h rd p idx H = (Inr (), ?H')"
      using c pvs(1) p by (simp add: point_of_h_def alloc_def append_h_def nth_append)
    have old: "point_at h0 p ?H' pv q" if "point_at h0 p H pv q" for pv q
      using that p by (auto simp: point_at_def nth_append split: val.splits obj.splits)
    have new: "point_at h0 p ?H' (VRef (length H)) pt"
      using p v by (simp add: point_at_def entries_match_def)
    have "list_all2 (point_at h0 p ?H') pvs pts"
      using pvs(2) by (rule list.rel_mono_strong) (rule old)
    with new have "list_all2 (point_at h0 p ?H') (pvs @ [VRef (length H)]) (pts @ [pt])"
      by (simp add: list_all2_appendI)
    then have "points_inv h0 p ?H' (pts @ [pt])"
      using frame p by (simp add: points_inv_def)
    moreover have "\<forall>a<length H. a \<noteq> p \<longrightarrow> ?H' ! a = H ! a"
      by (simp add: nth_append)
    ultimately show ?thesis using run Inr by simp
  qed
qed

lemma points_loop_sim:
  assumes "points_inv h0 p H pts"
    and "represents h0 rd rdj" and "list_all2 (represents h0) idxs idxjs"
  shows "case points_loop rdj pts idxjs of
           Inl e \<Rightarrow> (\<exists>H'. points_loop_h rd p idxs H = (Inl e, H') \<and> take (length h0) H' = h0)
         | Inr pts' \<Rightarrow>
             (\<exists>H'. points_loop_h rd p idxs H = (Inr (), H') \<and> points_inv h0 p H' pts'
                  \<and> length H \<le> length H' \<and> (\<forall>a<length H. a \<noteq> p \<longrightarrow> H' ! a = H ! a))"
  using assms(3,1)
proof (induction idxs idxjs arbitrary: H pts rule: list_all2_induct)
  case Nil
  then show ?case by simp
next
  case (Cons idx idxs idxj idxjs)
  note step = point_of_sim[OF Cons.prems assms(2) Cons.hyps(1)]
  show ?case
  proof (cases "point_of rdj idxj")
    case (Inl e)
    with step Cons.prems show ?thesis by (simp add: points_inv_def)
  next
    case (Inr pt)
    with step obtain H1 where H1: "point_of_h rd p idx H = (Inr (), H1)"
      "points_inv h0 p H1 (pts @ [pt])" "length H \<le> length H1"
      "\<forall>a<length H. a \<noteq> p \<longrightarrow> H1 ! a = H ! a" by auto
    from Cons.IH[OF H1(2)] H1(1,3,4) Inr show ?thesis
      by (auto split: sum.splits)
  qed
qed

subsection \<open>The decode on the heap\<close>

lemma represents_later:
  "take (length h0) H = h0 \<Longrightarrow> represents h0 v j \<Longrightarrow> represents H v j"
  using represents_append[of h0 v j "drop (length h0) H"] heap_split[of h0 H] by simp

lemma entries_match_represents:
  assumes "take (length h0) H = h0" and "a < length H" and "H ! a = ODict kvs"
    and "entries_match h0 kvs kjs"
  shows "represents H (VRef a) (JObj kjs)"
proof -
  have "list_all2 (\<lambda>kv kj. fst kv = fst kj \<and> represents H (snd kv) (snd kj)) kvs kjs"
    using assms(4) unfolding entries_match_def
    by (rule list.rel_mono_strong) (use represents_later[OF assms(1)] in auto)
  with assms(2,3) show ?thesis by simp
qed

lemma points_inv_represents:
  assumes "points_inv h0 p H pts"
  shows "represents H (VRef p) (JArr (map point_json pts))"
proof -
  from assms have frame: "take (length h0) H = h0" and p: "p < length H"
    by (simp_all add: points_inv_def)
  from assms obtain pvs where pvs: "H ! p = OList pvs" "list_all2 (point_at h0 p H) pvs pts"
    by (auto simp: points_inv_def split: obj.splits)
  have one: "represents H pv (point_json pt)" if "point_at h0 p H pv pt" for pv pt
  proof -
    from that obtain a kvs where a: "pv = VRef a" "a < length H" "H ! a = ODict kvs"
      "entries_match h0 kvs [(''lat'', lat pt), (''lng'', lng pt), (''ele'', ele pt)]"
      by (auto simp: point_at_def split: val.splits obj.splits)
    from entries_match_represents[OF frame a(2,3,4)] a(1) show ?thesis
      by (simp add: point_json_def)
  qed
  have "list_all2 (represents H) pvs (map point_json pts)"
    unfolding list_all2_map2
    using pvs(2) by (rule list.rel_mono_strong) (rule one)
  with p pvs(1) show ?thesis by simp
qed

lemma derive_name_sim:
  assumes inv: "meta_inv h0 m H md" and agree: "text_agrees rt text_of"
  shows "represents h0 (derive_name_h text_of H m) (derive_name rt md)"
proof -
  from inv have frame: "take (length h0) H = h0"
    by (simp add: meta_inv_def)
  from inv obtain kvs where kvs: "H ! m = ODict kvs" "entries_match h0 kvs md"
    by (auto simp: meta_inv_def split: obj.splits)
  have look: "rel_option (represents h0) (get_h H m k) (map_of md k)" for k
    using map_of_sim[OF kvs(2)[unfolded entries_match_def]] kvs(1) by (simp add: get_h_def)
  let ?t = "case get_h H m ''title'' of None \<Rightarrow> VNone | Some v \<Rightarrow> v"
  let ?i = "case get_h H m ''id'' of None \<Rightarrow> VStr ''Unknown'' | Some v \<Rightarrow> v"
  have t: "represents h0 ?t (dict_get md ''title'')"
    using look[of "''title''"]
    by (cases "map_of md ''title''") (auto simp: dict_get_def option_rel_Some2)
  have i: "represents h0 ?i (case map_of md ''id'' of None \<Rightarrow> JStr ''Unknown'' | Some v \<Rightarrow> v)"
    using look[of "''id''"]
    by (cases "map_of md ''id''") (auto simp: option_rel_Some2)
  note t' = represents_later[OF frame t]
  note i' = represents_later[OF frame i]
  from agree i' have "text_of H ?i = py_str rt (case map_of md ''id'' of None \<Rightarrow> JStr ''Unknown'' | Some v \<Rightarrow> v)"
    by (simp add: text_agrees_def)
  with t truthy_sim[OF t'] show ?thesis
    by (simp add: derive_name_h_def derive_name_def Let_def)
qed

lemma locate_sim:
  assumes "represents h data j"
  shows "rel_sum (=)
           (\<lambda>t u. represents h (fst t) (fst u) \<and> represents h (fst (snd t)) (fst (snd u))
                   \<and> represents h (snd (snd t)) (snd (snd u)))
           (bind (subscript_h h data (VStr ''nodes'')) (\<lambda>nodes.
            bind (subscript_h h nodes (VInt 2)) (\<lambda>node.
            bind (subscript_h h node (VStr ''data'')) (\<lambda>route_data.
            bind (subscript_h h route_data (VInt 0)) (\<lambda>route_info.
            bind (subscript_h h route_info (VStr ''latLngData'')) (\<lambda>lat_lng_idx.
            bind (subscript_h h route_info (VStr ''route'')) (\<lambda>route_meta_idx.
            bind (deref_h h route_data route_meta_idx) (\<lambda>route_meta_struct.
            Inr (route_data, lat_lng_idx, route_meta_struct)))))))))
           (bind (subscript j (JStr ''nodes'')) (\<lambda>nodes.
            bind (subscript nodes (JInt 2)) (\<lambda>node.
            bind (subscript node (JStr ''data'')) (\<lambda>route_data.
            bind (subscript route_data (JInt 0)) (\<lambda>route_info.
            bind (subscript route_info (JStr ''latLngData'')) (\<lambda>lat_lng_idx.
            bind (subscript route_info (JStr ''route'')) (\<lambda>route_meta_idx.
            bind (deref route_data route_meta_idx) (\<lambda>route_meta_struct.
            Inr (route_data, lat_lng_idx, route_meta_struct)))))))))"
  by (intro bind_sim[where R = "represents h"] subscript_sim deref_sim assms) simp_all

lemma extract_route_info_split:
  "extract_route_info rt j =
     bind (bind (subscript j (JStr ''nodes'')) (\<lambda>nodes.
            bind (subscript nodes (JInt 2)) (\<lambda>node.
            bind (subscript node (JStr ''data'')) (\<lambda>route_data.
            bind (subscript route_data (JInt 0)) (\<lambda>route_info.
            bind (subscript route_info (JStr ''latLngData'')) (\<lambda>lat_lng_idx.
            bind (subscript route_info (JStr ''route'')) (\<lambda>route_meta_idx.
            bind (deref route_data route_meta_idx) (\<lambda>route_meta_struct.
            Inr (route_data, lat_lng_idx, route_meta_struct)))))))))
       (\<lambda>t. bind (meta_loop (fst t) (snd (snd t)) [] fields_list) (\<lambda>metadata.
             bind (deref (fst t) (fst (snd t))) (\<lambda>point_indices.
             bind (py_iter point_indices) (\<lambda>idxs.
             bind (points_loop (fst t) [] idxs) (\<lambda>points.
             Inr (points, metadata, derive_name rt metadata))))))"
  by (simp add: extract_route_info_def bind_def split: sum.splits)

text \<open>One decode on the heap: the objects that existed before are unchanged, and the
  outcome is the outcome of the decode on the tree.\<close>

lemma decode_on_heap:
  assumes doc: "represents h data j" and agree: "text_agrees rt text_of"
  shows "take (length h) (snd (extract_route_info_h text_of data h)) = h
       \<and> same_outcome (snd (extract_route_info_h text_of data h))
            (fst (extract_route_info_h text_of data h)) (extract_route_info rt j)"
proof -
  let ?ch = "bind (subscript_h h data (VStr ''nodes'')) (\<lambda>nodes.
            bind (subscript_h h nodes (VInt 2)) (\<lambda>node.
            bind (subscript_h h node (VStr ''data'')) (\<lambda>route_data.
            bind (subscript_h h route_data (VInt 0)) (\<lambda>route_info.
            bind (subscript_h h route_info (VStr ''latLngData'')) (\<lambda>lat_lng_idx.
            bind (subscript_h h route_info (VStr ''route'')) (\<lambda>route_meta_idx.
            bind (deref_h h route_data route_meta_idx) (\<lambda>route_meta_struct.
            Inr (route_data, lat_lng_idx, route_meta_struct))))))))"
  let ?cj = "bind (subscript j (JStr ''nodes'')) (\<lambda>nodes.
            bind (subscript nodes (JInt 2)) (\<lambda>node.
            bind (subscript node (JStr ''data'')) (\<lambda>route_data.
            bind (subscript route_data (JInt 0)) (\<lambda>route_info.
            bind (subscript route_info (JStr ''latLngData'')) (\<lambda>lat_lng_idx.
            bind (subscript route_info (JStr ''route'')) (\<lambda>route_meta_idx.
            bind (deref route_data route_meta_idx) (\<lambda>route_meta_struct.
            Inr (route_data, lat_lng_idx, route_meta_struct))))))))"
  note sim0 = locate_sim[OF doc]
  note pure = extract_route_info_split[of rt j]
  show ?thesis
  proof (cases ?cj)
    case (Inl e)
    with sim0 have "?ch = Inl e" by (cases ?ch) auto
    with Inl pure show ?thesis by (simp add: extract_route_info_h_def)
  next
    case (Inr u)
    obtain rdj llij stj where u: "u = (rdj, llij, stj)" by (cases u)
    from Inr sim0 u obtain rd lli st where ch: "?ch = Inr (rd, lli, st)"
      and rd: "represents h rd rdj" and lli: "represents h lli llij" and st: "represents h st stj"
      by (cases ?ch) auto
    let ?m = "length h"
    let ?H1 = "h @ [ODict []]"
    have inv1: "meta_inv h ?m ?H1 []"
      by (simp add: meta_inv_def entries_match_def)
    note loop1 = meta_loop_sim[OF inv1 rd st, of fields_list]
    show ?thesis
    proof (cases "meta_loop rdj stj [] fields_list")
      case (Inl e)
      with loop1 obtain H' where "meta_loop_h rd st ?m fields_list ?H1 = (Inl e, H')"
        "take (length h) H' = h" by auto
      with Inl Inr u ch pure show ?thesis
        by (simp add: extract_route_info_h_def alloc_def)
    next
      case md: (Inr md)
      with loop1 obtain H2 where H2: "meta_loop_h rd st ?m fields_list ?H1 = (Inr (), H2)"
        "meta_inv h ?m H2 md" "length H2 = length ?H1" by auto
      from H2(2) have frame2: "take (length h) H2 = h" by (simp add: meta_inv_def)
      from H2(2) obtain kvs where kvs: "H2 ! ?m = ODict kvs" "entries_match h kvs md"
        by (auto simp: meta_inv_def split: obj.splits)
      note name = derive_name_sim[OF H2(2) agree]
      note dr = deref_sim_later[OF frame2 rd lli]
      show ?thesis
      proof (cases "deref rdj llij")
        case (Inl e)
        with dr have "deref_h H2 rd lli = Inl e" by (cases "deref_h H2 rd lli") auto
        with Inl md Inr u ch pure H2(1) frame2 show ?thesis
          by (simp add: extract_route_info_h_def alloc_def)
      next
        case pis: (Inr pisj)
        with dr obtain pis where pis': "deref_h H2 rd lli = Inr pis" "represents h pis pisj"
          by (cases "deref_h H2 rd lli") auto
        let ?p = "length H2"
        let ?H3 = "H2 @ [OList []]"
        have frame3: "take (length h) ?H3 = h"
          using frame2 H2(3) by simp
        note it = py_iter_sim_later[OF frame3 pis'(2)]
        show ?thesis
        proof (cases "py_iter pisj")
          case (Inl e)
          with it have "py_iter_h ?H3 pis = Inl e" by (cases "py_iter_h ?H3 pis") auto
          with Inl pis md Inr u ch pure H2(1) pis'(1) frame3 show ?thesis
            by (simp add: extract_route_info_h_def alloc_def)
        next
          case idxs: (Inr idxjs)
          with it obtain idxs where idxs': "py_iter_h ?H3 pis = Inr idxs"
            "list_all2 (represents h) idxs idxjs"
            by (cases "py_iter_h ?H3 pis") auto
          have inv3: "points_inv h ?p ?H3 []"
            using frame3 H2(3) by (simp add: points_inv_def nth_append)
          note loop2 = points_loop_sim[OF inv3 rd idxs'(2)]
          show ?thesis
          proof (cases "points_loop rdj [] idxjs")
            case (Inl e)
            with loop2 obtain H' where "points_loop_h rd ?p idxs ?H3 = (Inl e, H')"
              "take (length h) H' = h" by auto
            with Inl idxs pis md Inr u ch pure H2(1) pis'(1) idxs'(1) show ?thesis
              by (simp add: extract_route_info_h_def alloc_def)
          next
            case pts: (Inr pts)
            with loop2 obtain H4 where H4: "points_loop_h rd ?p idxs ?H3 = (Inr (), H4)"
              "points_inv h ?p H4 pts" "length ?H3 \<le> length H4"
              "\<forall>a<length ?H3. a \<noteq> ?p \<longrightarrow> H4 ! a = ?H3 ! a" by auto
            from H4(2) have frame4: "take (length h) H4 = h" by (simp add: points_inv_def)
            have m4: "?m < length H4" "H4 ! ?m = ODict kvs"
              using H4(3,4) H2(3) kvs(1) by (auto simp: nth_append)
            have a: "represents H4 (VRef ?p) (JArr (map point_json pts))"
              by (rule points_inv_represents[OF H4(2)])
            have b: "represents H4 (VRef ?m) (JObj md)"
              by (rule entries_match_represents[OF frame4 m4 kvs(2)])
            have c: "represents H4 (derive_name_h text_of H2 ?m) (derive_name rt md)"
              by (rule represents_later[OF frame4 name])
            have run: "extract_route_info_h text_of data h =
                         (Inr (VRef ?p, VRef ?m, derive_name_h text_of H2 ?m), H4)"
              using ch H2(1) pis'(1) idxs'(1) H4(1)
              by (simp add: extract_route_info_h_def alloc_def)
            have "extract_route_info rt j = Inr (pts, md, derive_name rt md)"
              using pure Inr u md pis idxs pts by simp
            with run a b c frame4 show ?thesis by simp
          qed
        qed
      qed
    qed
  qed
qed


text \<open>
  C8. Let the heap hold the document, and let the decoder run on it twice, the second
  run on the heap that the first run leaves. Every object that existed before the
  first run is unchanged after each run, so the input store is unchanged and the
  document is still the same tree. Both runs have the same outcome, the one that
  \<open>extract_route_info\<close> computes from the tree: the same exception, or lists of points
  with the same points in the same order, metadata dictionaries with the same entries
  and the same name. The only objects a run changes are the dictionary and the list
  that it has created itself.
\<close>

theorem decode_twice:
  assumes "represents h data j" and "text_agrees rt text_of"
    and "extract_route_info_h text_of data h = (r1, h1)"
    and "extract_route_info_h text_of data h1 = (r2, h2)"
  shows "take (length h) h1 = h \<and> take (length h) h2 = h
       \<and> represents h1 data j \<and> represents h2 data j
       \<and> same_outcome h1 r1 (extract_route_info rt j)
       \<and> same_outcome h2 r2 (extract_route_info rt j)"
proof -
  from decode_on_heap[OF assms(1,2)] assms(3)
  have 1: "take (length h) h1 = h" "same_outcome h1 r1 (extract_route_info rt j)"
    by simp_all
  from represents_later[OF 1(1) assms(1)] have d1: "represents h1 data j" .
  from decode_on_heap[OF d1 assms(2)] assms(4)
  have 2: "take (length h1) h2 = h1" "same_outcome h2 r2 (extract_route_info rt j)"
    by simp_all
  from represents_later[OF 2(1) d1] have d2: "represents h2 data j" .
  have "take (length h) h2 = take (length h) (take (length h1) h2)"
    using 1(1) by (metis length_take min.absorb_iff2 min.cobounded1 take_take)
  with 1(1) 2(1) have "take (length h) h2 = h" by simp
  with 1 2 d1 d2 show ?thesis by simp
qed

text \<open>Two runs on the small heap: each adds its own three objects behind the eight of
  the document and returns the same point, metadata and name.\<close>

lemma small_heap_represents: "represents small_heap (VRef 7) (document_of small_store)"
  by (simp add: small_heap_def document_of_def small_store_def)

lemma sample_text_agrees: "text_agrees sample_runtime sample_text_of"
proof -
  have "sample_text_of h v = py_str sample_runtime j" if "represents h v j" for h v j
    using that by (cases j) (auto simp: sample_runtime_def split: val.splits)
  then show ?thesis by (simp add: text_agrees_def)
qed

lemma small_run_1:
  "extract_route_info_h sample_text_of (VRef 7) small_heap =
     (Inr (VRef 9, VRef 8, VStr ''Route 8771''),
      small_heap @ [ODict [(''id'', VInt 8771)], OList [VRef 10],
                    ODict [(''lat'', VInt 40), (''lng'', VInt 50), (''ele'', VInt 60)]])"
  by (simp add: extract_route_info_h_def small_heap_def deref_h_def seq_item_def alloc_def
        fields_list_def meta_field_h_def setitem_h_def point_of_h_def append_h_def
        derive_name_h_def get_h_def show_int_def show_nat_digits)


lemma small_run_2:
  "extract_route_info_h sample_text_of (VRef 7)
     (small_heap @ [ODict [(''id'', VInt 8771)], OList [VRef 10],
                    ODict [(''lat'', VInt 40), (''lng'', VInt 50), (''ele'', VInt 60)]]) =
     (Inr (VRef 12, VRef 11, VStr ''Route 8771''),
      small_heap @ [ODict [(''id'', VInt 8771)], OList [VRef 10],
                    ODict [(''lat'', VInt 40), (''lng'', VInt 50), (''ele'', VInt 60)],
                    ODict [(''id'', VInt 8771)], OList [VRef 13],
                    ODict [(''lat'', VInt 40), (''lng'', VInt 50), (''ele'', VInt 60)]])"
  by (simp add: extract_route_info_h_def small_heap_def deref_h_def seq_item_def alloc_def
        fields_list_def meta_field_h_def setitem_h_def point_of_h_def append_h_def
        derive_name_h_def get_h_def show_int_def show_nat_digits)

lemma small_decode:
  "extract_route_info sample_runtime (document_of small_store) =
     Inr ([\<lparr>lat = JInt 40, lng = JInt 50, ele = JInt 60\<rparr>], [(''id'', JInt 8771)],
          JStr ''Route 8771'')"
  by (simp add: decode_simps small_store_def show_int_def show_nat_digits)

theorem decode_twice_witness:
  "take (length small_heap)
     (small_heap @ [ODict [(''id'', VInt 8771)], OList [VRef 10],
                    ODict [(''lat'', VInt 40), (''lng'', VInt 50), (''ele'', VInt 60)],
                    ODict [(''id'', VInt 8771)], OList [VRef 13],
                    ODict [(''lat'', VInt 40), (''lng'', VInt 50), (''ele'', VInt 60)]])
     = small_heap
   \<and> same_outcome
        (small_heap @ [ODict [(''id'', VInt 8771)], OList [VRef 10],
                    ODict [(''lat'', VInt 40), (''lng'', VInt 50), (''ele'', VInt 60)]])
        (Inr (VRef 9, VRef 8, VStr ''Route 8771''))
        (Inr ([\<lparr>lat = JInt 40, lng = JInt 50, ele = JInt 60\<rparr>], [(''id'', JInt 8771)],
              JStr ''Route 8771''))
   \<and> same_outcome
        (small_heap @ [ODict [(''id'', VInt 8771)], OList [VRef 10],
                    ODict [(''lat'', VInt 40), (''lng'', VInt 50), (''ele'', VInt 60)],
                    ODict [(''id'', VInt 8771)], OList [VRef 13],
                    ODict [(''lat'', VInt 40), (''lng'', VInt 50), (''ele'', VInt 60)]])
        (Inr (VRef 12, VRef 11, VStr ''Route 8771''))
        (Inr ([\<lparr>lat = JInt 40, lng = JInt 50, ele = JInt 60\<rparr>], [(''id'', JInt 8771)],
              JStr ''Route 8771''))"
  using decode_twice[OF small_heap_represents sample_text_agrees small_run_1 small_run_2]
  by (simp only: small_decode)

end
